theory Spec2Isabelle
  imports Complex_Main "HOL-Library.Word"
begin

section \<open>Data model\<close>

text \<open>
  The embedding covers \<^verbatim>\<open>QELEventGenerator::ProcessEventRecord\<close> (the accept/reject
  sampler) and \<^verbatim>\<open>QELEventGenerator::ComputeMaxXSec\<close> (the estimator of the maximum
  differential cross section) of
  \<^verbatim>\<open>src/Physics/QuasiElastic/EventGen/QELEventGenerator.cxx\<close>.

  A C++ \<^verbatim>\<open>double\<close> is a \<^typ>\<open>real\<close> that stands for a finite double. In the
  sampler and in the nucleon throws of the estimator the arithmetic is exact, without
  rounding. In the scan of the angles of the estimator (lines 633 to 677), where the grid
  and the stopping test depend on it, every operation is rounded to the nearest double as
  IEEE 754 binary64 arithmetic does (\<open>round_double\<close> below), each operation on its own;
  the quotient of the improvement factor is written out with its IEEE results for a zero
  divisor and for an overflow (\<open>ieee_div\<close> below). A zero has no sign: the evaluator is
  taken to return finite values, and the positive zero for a vanishing cross section.

  A \<^verbatim>\<open>TLorentzVector\<close> is the tuple \<open>(px, py, pz, E)\<close>, a \<^verbatim>\<open>TVector3\<close> the
  triple \<open>(x, y, z)\<close>.
\<close>

type_synonym p4 = "real \<times> real \<times> real \<times> real"
type_synonym vec3 = "real \<times> real \<times> real"

text \<open>The binding modes that the two functions name.\<close>

datatype QELEvGen_BindingMode = kUseGroundStateRemnant | kUseNuclearModel | kOnShellWithCorrection

text \<open>The data members of the generator that \<^verbatim>\<open>LoadConfig\<close> fills.\<close>

record generator =
  fSafetyFactor :: real
  fGenerateUniformly :: bool
  fMinAngleEM :: real
  fHitNucleonBindingMode :: QELEvGen_BindingMode
  fMaxXSecNucleonThrows :: int

subsection \<open>Kinematics of the interaction\<close>

text \<open>
  Modelled from the spec: the class \<^verbatim>\<open>Kinematics\<close> (\<^verbatim>\<open>SetQ2\<close>, \<^verbatim>\<open>SetW\<close>,
  \<^verbatim>\<open>Setx\<close>, \<^verbatim>\<open>Sety\<close>, \<^verbatim>\<open>Q2\<close>, \<^verbatim>\<open>ClearRunningValues\<close>) is not among the
  source files. The spec gives the interaction the kinematic variables Q2, W, x, y, each
  with a running (provisional) value and a locked (selected) value; a setter called with
  \<^verbatim>\<open>selected = true\<close> writes the locked value, otherwise the running one, and
  \<^verbatim>\<open>ClearRunningValues\<close> removes the running values and leaves the locked ones.
\<close>

record kinematics =
  kv_Q2 :: "real option"
  kv_W :: "real option"
  kv_x :: "real option"
  kv_y :: "real option"
  kv_SelQ2 :: "real option"
  kv_SelW :: "real option"
  kv_Selx :: "real option"
  kv_Sely :: "real option"

datatype kine_op =
    SetQ2 real bool
  | SetW real bool
  | Setx real bool
  | Sety real bool
  | ClearRunningValues

fun kine_apply :: "kine_op \<Rightarrow> kinematics \<Rightarrow> kinematics" where
  "kine_apply (SetQ2 v selected) k = (if selected then k\<lparr>kv_SelQ2 := Some v\<rparr> else k\<lparr>kv_Q2 := Some v\<rparr>)"
| "kine_apply (SetW v selected) k = (if selected then k\<lparr>kv_SelW := Some v\<rparr> else k\<lparr>kv_W := Some v\<rparr>)"
| "kine_apply (Setx v selected) k = (if selected then k\<lparr>kv_Selx := Some v\<rparr> else k\<lparr>kv_x := Some v\<rparr>)"
| "kine_apply (Sety v selected) k = (if selected then k\<lparr>kv_Sely := Some v\<rparr> else k\<lparr>kv_y := Some v\<rparr>)"
| "kine_apply ClearRunningValues k = k\<lparr>kv_Q2 := None, kv_W := None, kv_x := None, kv_y := None\<rparr>"

text \<open>
  \<^verbatim>\<open>Kinematics::Q2(false)\<close>, the running value. The sampler reads it only after the
  evaluator or the correction pass has written it; the value for an unset variable is not
  part of the source files and stands as 0.
\<close>

definition Q2_running :: "kinematics \<Rightarrow> real" where
  "Q2_running k = (case kv_Q2 k of Some q \<Rightarrow> q | None \<Rightarrow> 0)"

subsection \<open>The event record and what the sampler changes\<close>

datatype ghep_particle =
    FSPrimLepton p4
  | RecoilNucleon bool p4
  | NucleusRemnant

text \<open>
  The state that \<^verbatim>\<open>ProcessEventRecord\<close> reads and writes: the kinematics of the
  interaction summary with the order of the calls made on it, the corrected or uncorrected
  final-state four-momenta, the particles added to the event record, the event flag
  \<^verbatim>\<open>kKineGenErr\<close>, the differential cross section set on the record, the removal energy
  \<^verbatim>\<open>fEb\<close>, and counters for the calls to the collaborators: nucleon states set on the
  nuclear model, evaluations of the differential cross section (with their angles),
  computations of the maximum cross section and calls of \<^verbatim>\<open>PauliBlocker::SetIgnoreNext\<close>.
\<close>

record evrec =
  kine :: kinematics
  kine_calls :: "kine_op list"
  FSLeptonP4 :: p4
  HadSystP4 :: p4
  particles :: "ghep_particle list"
  kKineGenErr :: bool
  DiffXSec :: "real option"
  fEb :: real
  hit_nucleon_p4 :: "p4 option"
  nucleon_throws :: nat
  xsec_evals :: "(real \<times> real) list"
  MaxXSec_calls :: nat
  SetIgnoreNext_calls :: nat

definition kine_call :: "kine_op \<Rightarrow> evrec \<Rightarrow> evrec" where
  "kine_call c ev = ev\<lparr>kine := kine_apply c (kine ev), kine_calls := kine_calls ev @ [c]\<rparr>"

text \<open>
  What is fixed during one call of \<^verbatim>\<open>ProcessEventRecord\<close> and comes from outside the
  two functions: the iteration limit \<^verbatim>\<open>kRjMaxIterations\<close> (an \<^verbatim>\<open>unsigned int\<close>
  constant of the controls header), the value that \<^verbatim>\<open>MaxXSec(evrec)\<close> returns,
  whether \<^verbatim>\<open>AssertXSecLimits(interaction, xsec, xsec_max)\<close> returns (\<open>True\<close>) or ends
  the run, the target and process flags, the particle masses of the PDG library, the Fermi
  momentum of the Pauli blocker and the conversion \<^verbatim>\<open>kinematics::WQ2toXY\<close>.
\<close>

record event_env =
  kRjMaxIterations :: "32 word"
  MaxXSec :: real
  AssertXSecLimits :: "real \<Rightarrow> real \<Rightarrow> bool"
  tgt_IsNucleus :: bool
  hit_nucleon_set :: bool
  have_nucleus :: bool
  fnucleus_found :: bool
  proc_IsEM :: bool
  lepMass :: real
  mNf :: real
  recoil_hadron_mass :: real
  kF :: real
  WQ2toXY :: "real \<Rightarrow> real \<Rightarrow> real \<Rightarrow> real \<Rightarrow> real \<times> real"

text \<open>
  What the collaborators return during one pass of the loop: the value of
  \<^verbatim>\<open>CosTheta0Max\<close> for the nucleon just bound, the three random draws, the value of
  the evaluator \<^verbatim>\<open>ComputeFullQELPXSec\<close> with the running Q2 and the four-momenta it
  leaves in the interaction, and, for the correction pass, the centre-of-mass energy after
  binding again, the result of the rotation and boost to the lab frame (lines 269 to 305:
  the lepton and nucleon four-momenta, the lepton's polar angle, the momentum of the
  nucleon), the corrected Q2 with the allowed range, and the probe energy and nucleon mass
  read at acceptance.
\<close>

record trial =
  bind_Eb :: real
  CosTheta0Max :: real
  rnd_costheta :: real
  rnd_phi :: real
  xsec :: real
  ev_Q2 :: real
  ev_lepton :: p4
  ev_hadsyst :: p4
  ev_hadsyst_P :: real
  Rndm :: real
  corr_Eb :: real
  CMEnergy :: real
  lab_lepton :: p4
  lab_lepton_Theta :: real
  lab_outNucleon :: p4
  lab_outNucleon_P :: real
  corr_Q2 :: real
  Q2lim_min :: real
  Q2lim_max :: real
  ProbeE_HitNucRest :: real
  HitNucP4_M :: real
  HitNucP4 :: p4

datatype evg_error = KinematicSelectionFailure | XSecLimitsExceeded | FatalExit

text \<open>
  How one pass of the loop ends: \<^verbatim>\<open>continue\<close> or the end of the body without
  acceptance, \<^verbatim>\<open>break\<close> after an accepted trial, or the end of the run.
\<close>

datatype pass =
    is_Continue: Continue (pass_state: evrec)
  | is_Accepted: Accepted (pass_state: evrec)
  | is_Raised: Raised evg_error (pass_state: evrec)

datatype outcome =
    is_Done: Done (final_state: evrec)
  | is_Thrown: Thrown evg_error (final_state: evrec)

text \<open>The locked kinematic set of an interaction.\<close>

definition locked :: "kinematics \<Rightarrow> real option \<times> real option \<times> real option \<times> real option" where
  "locked k = (kv_SelQ2 k, kv_SelW k, kv_Selx k, kv_Sely k)"

text \<open>Whether a call on the kinematics writes a locked value.\<close>

fun is_locking :: "kine_op \<Rightarrow> bool" where
  "is_locking (SetQ2 v selected) = selected"
| "is_locking (SetW v selected) = selected"
| "is_locking (Setx v selected) = selected"
| "is_locking (Sety v selected) = selected"
| "is_locking ClearRunningValues = False"

text \<open>
  The order that the spec gives for the end of an accepted trial, in its words: the running
  values are cleared before the locked ones are written. On a sequence of calls: no call
  that writes a locked value comes before the first \<^verbatim>\<open>ClearRunningValues\<close>.
\<close>

fun cleared_before_locking :: "kine_op list \<Rightarrow> bool" where
  "cleared_before_locking [] = True"
| "cleared_before_locking (c # cs) =
     (if c = ClearRunningValues then True else \<not> is_locking c \<and> cleared_before_locking cs)"

section \<open>The sampler\<close>

text \<open>
  Lines 353 to 419: what an accepted trial does after any correction. The log messages and
  the three trust bits of the interaction (set at lines 106 to 115, reset at lines 357 to
  359) are left out; the mass of the recoil hadron (lines 373 to 383) is a value of the
  environment, and \<^verbatim>\<open>AddTargetNucleusRemnant\<close> adds one particle when the record has
  a target nucleus.
\<close>

definition finish_event :: "event_env \<Rightarrow> trial \<Rightarrow> evrec \<Rightarrow> evrec" where
  "finish_event e tr ev =
     (let gQ2 = Q2_running (kine ev);
          E = ProbeE_HitNucRest tr;
          M = HitNucP4_M tr;
          gW = recoil_hadron_mass e;
          (gx, gy) = WQ2toXY e E M gW gQ2;
          ev1 = kine_call (SetQ2 gQ2 True) ev;
          ev2 = kine_call (SetW gW True) ev1;
          ev3 = kine_call (Setx gx True) ev2;
          ev4 = kine_call (Sety gy True) ev3;
          ev5 = kine_call ClearRunningValues ev4;
          ev6 = ev5\<lparr>DiffXSec := Some (xsec tr)\<rparr>;
          ev7 = ev6\<lparr>particles := particles ev6 @
                  [FSPrimLepton (FSLeptonP4 ev6), RecoilNucleon (tgt_IsNucleus e) (HadSystP4 ev6)]\<rparr>;
          ev8 = ev7\<lparr>hit_nucleon_p4 := Some (HitNucP4 tr)\<rparr>
      in if have_nucleus e then ev8\<lparr>particles := particles ev8 @ [NucleusRemnant]\<rparr> else ev8)"

text \<open>
  Lines 231 to 351: the binding-energy correction of an accepted trial. \<open>Inl\<close> is one of
  the four \<^verbatim>\<open>continue\<close> statements, \<open>Inr\<close> the corrected candidate. The divisor
  of line 256 is zero only for \<open>s = 0\<close>, which passes line 250 only when the two masses
  sum to nothing; with the positive masses of a lepton and a nucleon it is not reached.
\<close>

definition binding_correction :: "generator \<Rightarrow> event_env \<Rightarrow> trial \<Rightarrow> evrec \<Rightarrow> evrec + evrec" where
  "binding_correction g e tr ev =
     (let ev1 = ev\<lparr>fEb := corr_Eb tr\<rparr>;
          s = (CMEnergy tr)\<^sup>2
      in if sqrt s < lepMass e + mNf e then Inl ev1
         else
           let outLeptonEnergy = (s - mNf e * mNf e + lepMass e * lepMass e) / (2 * sqrt s)
           in if outLeptonEnergy * outLeptonEnergy - lepMass e * lepMass e < 0 then Inl ev1
              else if 180 * lab_lepton_Theta tr / pi < fMinAngleEM g \<and> proc_IsEM e then Inl ev1
              else
                let Q2 = corr_Q2 tr
                in if Q2 < Q2lim_min tr \<or> Q2 > Q2lim_max tr then Inl ev1
                   else
                     let pNf_uncorrected = ev_hadsyst_P tr;
                         ev2 = (if lab_outNucleon_P tr < kF e \<and> pNf_uncorrected \<ge> kF e
                                then ev1\<lparr>SetIgnoreNext_calls := SetIgnoreNext_calls ev1 + 1\<rparr>
                                else ev1);
                         ev3 = ev2\<lparr>FSLeptonP4 := lab_lepton tr, HadSystP4 := lab_outNucleon tr\<rparr>
                     in Inr (kine_call (SetQ2 Q2 False) ev3))"

text \<open>Lines 226 to 419: the branch \<^verbatim>\<open>if ( accept )\<close>.\<close>

definition on_accept :: "generator \<Rightarrow> event_env \<Rightarrow> trial \<Rightarrow> evrec \<Rightarrow> pass" where
  "on_accept g e tr ev =
     (if tgt_IsNucleus e \<and> fHitNucleonBindingMode g = kOnShellWithCorrection then
        (case binding_correction g e tr ev of
           Inl ev' \<Rightarrow> Continue ev'
         | Inr ev' \<Rightarrow> Accepted (finish_event e tr ev'))
      else Accepted (finish_event e tr ev))"

text \<open>
  Lines 177 to 193: a nucleon state is set on the nuclear model (sampled for a nucleus, at
  rest and unbound otherwise) and \<^verbatim>\<open>BindHitNucleon\<close> stores the removal energy.
\<close>

definition sample_nucleon :: "trial \<Rightarrow> evrec \<Rightarrow> evrec" where
  "sample_nucleon tr ev = ev\<lparr>nucleon_throws := nucleon_throws ev + 1, fEb := bind_Eb tr\<rparr>"

text \<open>
  Lines 207 to 213: the two angles are drawn and \<^verbatim>\<open>ComputeFullQELPXSec\<close> is called
  with them. The call leaves the running Q2 and the final-state four-momenta of the trial
  in the interaction, which lines 337, 353, 400 and 401 read back.
\<close>

definition evaluate_xsec :: "trial \<Rightarrow> evrec \<Rightarrow> evrec" where
  "evaluate_xsec tr ev =
     (let costheta = rnd_costheta tr;
          phi = rnd_phi tr
      in (kine_call (SetQ2 (ev_Q2 tr) False) ev)
           \<lparr>FSLeptonP4 := ev_lepton tr, HadSystP4 := ev_hadsyst tr,
            xsec_evals := xsec_evals ev @ [(costheta, phi)]\<rparr>)"

text \<open>Lines 177 to 424: the body of the loop after the check of the iteration count.\<close>

definition iteration :: "generator \<Rightarrow> event_env \<Rightarrow> real \<Rightarrow> trial \<Rightarrow> evrec \<Rightarrow> pass" where
  "iteration g e xsec_max tr ev =
     (let ev1 = sample_nucleon tr ev;
          cos_theta0_max = min 1 (CosTheta0Max tr)
      in if cos_theta0_max \<le> - 1 then Continue ev1
         else
           let ev2 = evaluate_xsec tr ev1
           in if \<not> AssertXSecLimits e (xsec tr) xsec_max then Raised XSecLimitsExceeded ev2
              else
                let t = xsec_max * Rndm tr;
                    accept = (t < xsec tr)
                in if accept then on_accept g e tr ev2 else Continue ev2)"

text \<open>
  Lines 162 to 424: \<^verbatim>\<open>while (1)\<close> with the counter \<^verbatim>\<open>unsigned int iter\<close>. The loop
  has no bound of its own besides the counter, so the model runs it on fuel: \<open>None\<close> is a
  run that has not ended within the fuel. Pass \<open>n\<close> of the loop reads \<open>trials n\<close>.
\<close>

fun accept_reject_loop ::
  "nat \<Rightarrow> generator \<Rightarrow> event_env \<Rightarrow> real \<Rightarrow> (nat \<Rightarrow> trial) \<Rightarrow> 32 word \<Rightarrow> evrec \<Rightarrow> outcome option" where
  "accept_reject_loop 0 g e xsec_max trials iter ev = None"
| "accept_reject_loop (Suc fuel) g e xsec_max trials iter ev =
     (let iter' = iter + 1
      in if iter' > kRjMaxIterations e
         then Some (Thrown KinematicSelectionFailure (ev\<lparr>kKineGenErr := True\<rparr>))
         else
           (case iteration g e xsec_max (trials 0) ev of
              Continue ev' \<Rightarrow> accept_reject_loop fuel g e xsec_max (\<lambda>n. trials (Suc n)) iter' ev'
            | Accepted ev' \<Rightarrow> Some (Done ev')
            | Raised err ev' \<Rightarrow> Some (Thrown err ev')))"

text \<open>Line 124: the bound of the rejection method.\<close>

definition select_xsec_max :: "generator \<Rightarrow> event_env \<Rightarrow> evrec \<Rightarrow> real \<times> evrec" where
  "select_xsec_max g e ev =
     (if fGenerateUniformly g then (- 1, ev)
      else (MaxXSec e, ev\<lparr>MaxXSec_calls := MaxXSec_calls ev + 1\<rparr>))"

text \<open>Lines 81 to 426. The two \<^verbatim>\<open>exit(1)\<close> before the loop are \<open>FatalExit\<close>.\<close>

definition ProcessEventRecord ::
  "nat \<Rightarrow> generator \<Rightarrow> event_env \<Rightarrow> (nat \<Rightarrow> trial) \<Rightarrow> evrec \<Rightarrow> outcome option" where
  "ProcessEventRecord fuel g e trials ev =
     (if tgt_IsNucleus e \<and> \<not> hit_nucleon_set e then Some (Thrown FatalExit ev)
      else
        let (xsec_max, ev1) = select_xsec_max g e ev
        in if have_nucleus e \<and> \<not> fnucleus_found e then Some (Thrown FatalExit ev1)
           else accept_reject_loop fuel g e xsec_max trials 0 ev1)"

section \<open>The estimator of the maximum cross section\<close>

text \<open>
  \<^verbatim>\<open>std::numeric_limits<double>::max()\<close>, the largest finite double.
\<close>

definition DBL_MAX :: real where
  "DBL_MAX = (2 - 1 / 2 ^ 52) * 2 ^ 1023"

subsection \<open>Double arithmetic\<close>

text \<open>
  Rounding of a real to the nearest double (IEEE 754 binary64, round to nearest, ties to
  the even significand). A double is an integer of less than 54 bits times a power of two;
  the power is \<open>2\<close> to the exponent of the value less 52, and not below \<open>2\<close> to the
  \<open>-1074\<close> (the subnormal numbers). A value whose rounding lies beyond
  \<^verbatim>\<open>DBL_MAX\<close> is an infinity (\<open>to_double\<close>).
\<close>

definition pow2 :: "int \<Rightarrow> real" where
  "pow2 e = (if 0 \<le> e then 2 ^ nat e else 1 / 2 ^ nat (- e))"

definition round_half_even :: "real \<Rightarrow> int" where
  "round_half_even q =
     (let f = \<lfloor>q\<rfloor>;
          d = q - of_int f
      in if d < 1 / 2 then f
         else if d > 1 / 2 then f + 1
         else if even f then f else f + 1)"

definition ulp_exponent :: "real \<Rightarrow> int" where
  "ulp_exponent x = max \<lfloor>log 2 \<bar>x\<bar>\<rfloor> (- 1022) - 52"

definition round_double :: "real \<Rightarrow> real" where
  "round_double x =
     (if x = 0 then 0
      else of_int (round_half_even (x / pow2 (ulp_exponent x))) * pow2 (ulp_exponent x))"

text \<open>
  The four operations on finite doubles, for the places where the result is finite: the
  angles of the scan and their increments stay far from \<^verbatim>\<open>DBL_MAX\<close>, and the divisor
  of an increment is the number of grid steps.
\<close>

definition dbl_add :: "real \<Rightarrow> real \<Rightarrow> real" where
  "dbl_add a b = round_double (a + b)"

definition dbl_sub :: "real \<Rightarrow> real \<Rightarrow> real" where
  "dbl_sub a b = round_double (a - b)"

definition dbl_mul :: "real \<Rightarrow> real \<Rightarrow> real" where
  "dbl_mul a b = round_double (a * b)"

definition dbl_div :: "real \<Rightarrow> real \<Rightarrow> real" where
  "dbl_div a b = round_double (a / b)"

text \<open>
  IEEE division and the comparison of line 674. A quotient with a zero divisor is an
  infinity or not a number, a quotient that rounds beyond \<^verbatim>\<open>DBL_MAX\<close> an infinity;
  \<open>x - 1 < c\<close> is false for plus infinity and for not a number and true for minus
  infinity, and for a finite \<open>x\<close> the difference is rounded.
\<close>

datatype ieee_double = Finite real | PlusInfinity | MinusInfinity | NotANumber

definition to_double :: "real \<Rightarrow> ieee_double" where
  "to_double x =
     (let r = round_double x
      in if DBL_MAX < r then PlusInfinity
         else if r < - DBL_MAX then MinusInfinity
         else Finite r)"

definition ieee_div :: "real \<Rightarrow> real \<Rightarrow> ieee_double" where
  "ieee_div a b =
     (if b \<noteq> 0 then to_double (a / b)
      else if a > 0 then PlusInfinity
      else if a < 0 then MinusInfinity
      else NotANumber)"

fun minus_one_less :: "ieee_double \<Rightarrow> real \<Rightarrow> bool" where
  "minus_one_less (Finite q) c = (dbl_sub q 1 < c)"
| "minus_one_less PlusInfinity c = False"
| "minus_one_less MinusInfinity c = True"
| "minus_one_less NotANumber c = False"

text \<open>\<^verbatim>\<open>TMath::Pi()\<close>, the double nearest to \<open>\<pi>\<close> (3.141592653589793116).\<close>

definition TMath_Pi :: real where
  "TMath_Pi = 884279719003555 / 2 ^ 48"

subsection \<open>The nuclear model\<close>

text \<open>\<^verbatim>\<open>TVector3::Mag\<close>.\<close>

definition Mag :: "vec3 \<Rightarrow> real" where
  "Mag v = (case v of (x, y, z) \<Rightarrow> sqrt (x * x + y * y + z * z))"

text \<open>
  The nuclear model holds the current nucleon momentum and removal energy; the radii of
  the calls of \<^verbatim>\<open>GenerateNucleon\<close> are kept to tell how often and where it sampled.
\<close>

record nuclear_model =
  fCurrMomentum :: vec3
  fCurrRemovalEnergy :: real
  GenerateNucleon_radii :: "real list"

definition Momentum :: "nuclear_model \<Rightarrow> real" where
  "Momentum nm = Mag (fCurrMomentum nm)"

definition RemovalEnergy :: "nuclear_model \<Rightarrow> real" where
  "RemovalEnergy nm = fCurrRemovalEnergy nm"

definition SetMomentum3 :: "vec3 \<Rightarrow> nuclear_model \<Rightarrow> nuclear_model" where
  "SetMomentum3 p nm = nm\<lparr>fCurrMomentum := p\<rparr>"

definition SetRemovalEnergy :: "real \<Rightarrow> nuclear_model \<Rightarrow> nuclear_model" where
  "SetRemovalEnergy w nm = nm\<lparr>fCurrRemovalEnergy := w\<rparr>"

text \<open>
  What \<^verbatim>\<open>ComputeMaxXSec\<close> takes from outside: the state that the \<open>k\<close>-th call of
  \<^verbatim>\<open>GenerateNucleon\<close> draws at a radius, the value of \<^verbatim>\<open>CosTheta0Max\<close> for the
  copy of the interaction whose nucleon has been bound with a momentum and a removal
  energy and turned along -z (line 598), its value for the fresh copy of line 642, and the
  evaluator \<^verbatim>\<open>ComputeFullQELPXSec\<close>, which binds the nucleon with the state of the nuclear
  model and so is a function of that state and of the two angles.
\<close>

record estimator_env =
  nucleon_samples :: "nat \<Rightarrow> real \<Rightarrow> vec3 \<times> real"
  CosTheta0Max_thrown :: "real \<Rightarrow> real \<Rightarrow> real"
  CosTheta0Max_in :: real
  ComputeFullQELPXSec :: "vec3 \<Rightarrow> real \<Rightarrow> real \<Rightarrow> real \<Rightarrow> real"

definition GenerateNucleon :: "estimator_env \<Rightarrow> real \<Rightarrow> nuclear_model \<Rightarrow> nuclear_model" where
  "GenerateNucleon E r nm =
     (let (p, w) = nucleon_samples E (length (GenerateNucleon_radii nm)) r
      in \<lparr>fCurrMomentum = p, fCurrRemovalEnergy = w,
          GenerateNucleon_radii = GenerateNucleon_radii nm @ [r]\<rparr>)"

subsection \<open>Phase A: the nucleon throws\<close>

record nucleon_scan =
  min_energy :: real
  max_momentum :: real
  one_nucleon_ok :: bool

text \<open>Lines 574 to 605: the body of the loop over the thrown nucleons.\<close>

definition nucleon_throw ::
  "estimator_env \<Rightarrow> nuclear_model \<times> nucleon_scan \<Rightarrow> nuclear_model \<times> nucleon_scan" where
  "nucleon_throw E s =
     (let (nm, a) = s;
          nm1 = GenerateNucleon E 0 nm;
          cos_theta0_max = CosTheta0Max_thrown E (Momentum nm1) (RemovalEnergy nm1)
      in if cos_theta0_max > - 1
         then (nm1, \<lparr>min_energy = min (min_energy a) (RemovalEnergy nm1),
                     max_momentum = max (max_momentum a) (Momentum nm1),
                     one_nucleon_ok = True\<rparr>)
         else (nm1, a))"

text \<open>Line 572: \<^verbatim>\<open>for (int inuc = 0; inuc < fMaxXSecNucleonThrows; inuc++)\<close>.\<close>

fun nucleon_throws_loop ::
  "estimator_env \<Rightarrow> nat \<Rightarrow> nuclear_model \<times> nucleon_scan \<Rightarrow> nuclear_model \<times> nucleon_scan" where
  "nucleon_throws_loop E 0 s = s"
| "nucleon_throws_loop E (Suc n) s = nucleon_throws_loop E n (nucleon_throw E s)"

subsection \<open>Phase B: the scan of the angles\<close>

text \<open>Line 633: the literal \<^verbatim>\<open>0.2\<close> is the double nearest to \<open>2 / 10\<close>.\<close>

definition acceptable_fraction_of_safety_factor :: real where
  "acceptable_fraction_of_safety_factor = round_double (2 / 10)"

definition max_n_layers :: nat where
  "max_n_layers = 100"

definition N_theta :: nat where
  "N_theta = 10"

definition N_phi :: nat where
  "N_phi = 10"

record angular_window =
  costh_range_min :: real
  costh_range_max :: real
  phi_range_min :: real
  phi_range_max :: real

record scan_best =
  phi_at_xsec_max :: real
  costh_at_xsec_max :: real
  this_nuc_xsec_max :: real

record angular_scan =
  window :: angular_window
  best :: scan_best
  grid_evals :: "(real \<times> real) list"
  layers_done :: nat

text \<open>Lines 649 and 650.\<close>

definition costh_increment :: "angular_window \<Rightarrow> real" where
  "costh_increment w = dbl_div (dbl_sub (costh_range_max w) (costh_range_min w)) (real N_theta)"

definition phi_increment :: "angular_window \<Rightarrow> real" where
  "phi_increment w = dbl_div (dbl_sub (phi_range_max w) (phi_range_min w)) (real N_phi)"

text \<open>Lines 652 to 655: the angles of one layer, in the order of the two loops.\<close>

definition layer_grid :: "angular_window \<Rightarrow> (real \<times> real) list" where
  "layer_grid w =
     concat (map (\<lambda>itheta.
        map (\<lambda>iphi. (dbl_add (costh_range_min w) (dbl_mul (real itheta) (costh_increment w)),
                     dbl_add (phi_range_min w) (dbl_mul (real iphi) (phi_increment w))))
          [0..<N_phi])
       [0..<N_theta])"

text \<open>Lines 656 to 662: one evaluation and the update of the running maximum.\<close>

definition scan_point :: "(real \<Rightarrow> real \<Rightarrow> real) \<Rightarrow> scan_best \<Rightarrow> real \<times> real \<Rightarrow> scan_best" where
  "scan_point xs b cp =
     (let (costh, phi) = cp;
          v = xs costh phi
      in if v > this_nuc_xsec_max b
         then \<lparr>phi_at_xsec_max = phi, costh_at_xsec_max = costh, this_nuc_xsec_max = v\<rparr>
         else b)"

text \<open>Lines 649 to 671: one layer, and the range for the next one.\<close>

definition scan_layer :: "(real \<Rightarrow> real \<Rightarrow> real) \<Rightarrow> angular_scan \<Rightarrow> angular_scan" where
  "scan_layer xs s =
     (let w = window s;
          b = foldl (scan_point xs) (best s) (layer_grid w)
      in \<lparr>window =
            \<lparr>costh_range_min = dbl_sub (costh_at_xsec_max b) (costh_increment w),
             costh_range_max = dbl_add (costh_at_xsec_max b) (costh_increment w),
             phi_range_min = dbl_sub (phi_at_xsec_max b) (phi_increment w),
             phi_range_max = dbl_add (phi_at_xsec_max b) (phi_increment w)\<rparr>,
          best = b,
          grid_evals = grid_evals s @ layer_grid w,
          layers_done = layers_done s + 1\<rparr>)"

text \<open>
  Lines 647 to 677: \<^verbatim>\<open>for (int ilayer = 0 ; ilayer < max_n_layers ; ilayer++)\<close> with
  the \<^verbatim>\<open>break\<close> of line 675.
\<close>

function scan_layers :: "real \<Rightarrow> (real \<Rightarrow> real \<Rightarrow> real) \<Rightarrow> nat \<Rightarrow> angular_scan \<Rightarrow> angular_scan" where
  "scan_layers safety xs ilayer s =
     (if ilayer < max_n_layers then
        let last_layer_xsec_max = this_nuc_xsec_max (best s);
            s' = scan_layer xs s;
            improvement_factor = ieee_div (this_nuc_xsec_max (best s')) last_layer_xsec_max
        in if ilayer \<noteq> 0 \<and>
              minus_one_less improvement_factor
                (dbl_mul acceptable_fraction_of_safety_factor (dbl_sub safety 1))
           then s'
           else scan_layers safety xs (ilayer + 1) s'
      else s)"
  by pat_completeness auto
termination
  by (relation "measure (\<lambda>(safety, xs, ilayer, s). max_n_layers - ilayer)") auto

declare scan_layers.simps [simp del]

text \<open>Lines 637 to 646: the full range of the angles and no maximum yet.\<close>

definition first_layer_scan :: "estimator_env \<Rightarrow> angular_scan" where
  "first_layer_scan E =
     \<lparr>window = \<lparr>costh_range_min = - 1, costh_range_max = min 1 (CosTheta0Max_in E),
                phi_range_min = 0, phi_range_max = dbl_mul 2 TMath_Pi\<rparr>,
      best = \<lparr>phi_at_xsec_max = - 1, costh_at_xsec_max = 0, this_nuc_xsec_max = - 1\<rparr>,
      grid_evals = [], layers_done = 0\<rparr>"

text \<open>
  Lines 552 to 698. The result is the returned value with the nuclear model as the call
  leaves it and the angles at which the cross section was evaluated.
\<close>

definition ComputeMaxXSec ::
  "generator \<Rightarrow> estimator_env \<Rightarrow> nuclear_model \<Rightarrow> real \<times> nuclear_model \<times> (real \<times> real) list" where
  "ComputeMaxXSec g E nm =
     (let xsec_max = - 1;
          (nm1, a) = nucleon_throws_loop E (nat (fMaxXSecNucleonThrows g))
                       (nm, \<lparr>min_energy = DBL_MAX, max_momentum = - DBL_MAX,
                             one_nucleon_ok = False\<rparr>)
      in if \<not> one_nucleon_ok a then (0, nm1, [])
         else
           let nm2 = GenerateNucleon E 0 nm1;
               nm3 = SetMomentum3 (0, 0, - max_momentum a) nm2;
               nm4 = SetRemovalEnergy (min_energy a) nm3;
               s0 = first_layer_scan E;
               s = scan_layers (fSafetyFactor g)
                     (ComputeFullQELPXSec E (fCurrMomentum nm4) (fCurrRemovalEnergy nm4)) 0 s0;
               xsec_max = (if this_nuc_xsec_max (best s) > xsec_max
                           then this_nuc_xsec_max (best s) else xsec_max)
           in (xsec_max * fSafetyFactor g, nm4, grid_evals s))"

subsection \<open>The description of the estimator\<close>

text \<open>
  The nucleon states of \<open>n\<close> throws at radius 0 from a nuclear model, and those among
  them whose angular window is not degenerate.
\<close>

definition thrown_nucleons :: "estimator_env \<Rightarrow> nuclear_model \<Rightarrow> nat \<Rightarrow> (vec3 \<times> real) list" where
  "thrown_nucleons E nm n =
     map (\<lambda>k. nucleon_samples E (length (GenerateNucleon_radii nm) + k) 0) [0..<n]"

definition window_ok :: "estimator_env \<Rightarrow> vec3 \<times> real \<Rightarrow> bool" where
  "window_ok E pw = (CosTheta0Max_thrown E (Mag (fst pw)) (snd pw) > - 1)"

text \<open>Lines 601 to 603: what a throw with a valid window records.\<close>

definition record_throw :: "nucleon_scan \<Rightarrow> vec3 \<times> real \<Rightarrow> nucleon_scan" where
  "record_throw a pw =
     \<lparr>min_energy = min (min_energy a) (snd pw),
      max_momentum = max (max_momentum a) (Mag (fst pw)),
      one_nucleon_ok = True\<rparr>"

text \<open>
  The scan after \<open>k\<close> layers, and whether the fractional improvement of the running
  maximum from layer \<open>i\<close> to the layer after it, as the doubles of line 674 give it, is
  below the accepted fraction of the safety factor (counting layers from 1; a quotient of
  a positive maximum by zero is not below).
\<close>

definition after_layers :: "(real \<Rightarrow> real \<Rightarrow> real) \<Rightarrow> angular_scan \<Rightarrow> nat \<Rightarrow> angular_scan" where
  "after_layers xs s0 k = (scan_layer xs ^^ k) s0"

definition improvement_below :: "real \<Rightarrow> (real \<Rightarrow> real \<Rightarrow> real) \<Rightarrow> angular_scan \<Rightarrow> nat \<Rightarrow> bool" where
  "improvement_below safety xs s0 i =
     minus_one_less
       (ieee_div (this_nuc_xsec_max (best (after_layers xs s0 (Suc i))))
                 (this_nuc_xsec_max (best (after_layers xs s0 i))))
       (dbl_mul acceptable_fraction_of_safety_factor (dbl_sub safety 1))"

section \<open>Example inputs\<close>

text \<open>
  The configuration that \<^verbatim>\<open>LoadConfig\<close> gives when no parameter is set; the safety
  factor is the double \<^verbatim>\<open>1.6\<close>.
\<close>

definition default_generator :: generator where
  "default_generator =
     \<lparr>fSafetyFactor = round_double (16 / 10), fGenerateUniformly = False, fMinAngleEM = 0,
      fHitNucleonBindingMode = kUseNuclearModel, fMaxXSecNucleonThrows = 800\<rparr>"

text \<open>
  A nuclear target with five iterations allowed, a bound of 2 and no tolerance check; the
  conversion to (x, y) is \<open>x = Q2 / (W\<^sup>2 - M\<^sup>2 + Q2)\<close>, \<open>y = (W\<^sup>2 - M\<^sup>2 + Q2) / (2 M E)\<close>.
\<close>

definition toy_env :: event_env where
  "toy_env =
     \<lparr>kRjMaxIterations = 5, MaxXSec = 2, AssertXSecLimits = (\<lambda>xsec xsec_max. True),
      tgt_IsNucleus = True, hit_nucleon_set = True, have_nucleus = True,
      fnucleus_found = True, proc_IsEM = False, lepMass = 1 / 10, mNf = 1,
      recoil_hadron_mass = 1, kF = 1 / 4,
      WQ2toXY = (\<lambda>E M W Q2. (Q2 / (W\<^sup>2 - M\<^sup>2 + Q2), (W\<^sup>2 - M\<^sup>2 + Q2) / (2 * M * E)))\<rparr>"

definition toy_trial :: trial where
  "toy_trial =
     \<lparr>bind_Eb = 1 / 40, CosTheta0Max = 1, rnd_costheta = 0, rnd_phi = 0, xsec = 1,
      ev_Q2 = 1 / 2, ev_lepton = (0, 0, 1, 1), ev_hadsyst = (0, 0, 1 / 2, 2),
      ev_hadsyst_P = 1 / 2, Rndm = 1 / 2, corr_Eb = 1 / 40, CMEnergy = 2,
      lab_lepton = (0, 0, 1, 1), lab_lepton_Theta = 0, lab_outNucleon = (0, 0, 1 / 5, 2),
      lab_outNucleon_P = 1 / 5, corr_Q2 = 2 / 5, Q2lim_min = 0, Q2lim_max = 3,
      ProbeE_HitNucRest = 2, HitNucP4_M = 1, HitNucP4 = (0, 0, 0, 1)\<rparr>"

text \<open>
  An estimator with three throws: the first two have a valid window, the third, with the
  smallest removal energy, has not; the cross section is 1 everywhere.
\<close>

definition toy_estimator_env :: estimator_env where
  "toy_estimator_env =
     \<lparr>nucleon_samples =
        (\<lambda>k r. if k = 0 then ((0, 0, 1 / 2), 1 / 20)
               else if k = 1 then ((0, 0, 3 / 4), 1 / 10)
               else ((0, 0, 1 / 4), 1 / 40)),
      CosTheta0Max_thrown = (\<lambda>p w. 4 * p - 2),
      CosTheta0Max_in = 1 / 2,
      ComputeFullQELPXSec = (\<lambda>p w costh phi. 1)\<rparr>"

text \<open>
  A cross section for the scan of the angles alone: 6 at a negative \<open>phi\<close>, which the
  first layer does not reach and the second does, and 5 elsewhere.
\<close>

definition toy_xsec :: "real \<Rightarrow> real \<Rightarrow> real" where
  "toy_xsec costh phi = (if phi < 0 then 6 else 5)"

text \<open>
  The increment of \<open>phi\<close> in the first layer, the double that
  \<^verbatim>\<open>(2*TMath::Pi() - 0.) / 10\<close> gives (0.6283185307179586).
\<close>

definition first_phi_increment :: real where
  "first_phi_increment = 5659390201622752 / 2 ^ 53"

definition fresh_nuclear_model :: nuclear_model where
  "fresh_nuclear_model =
     \<lparr>fCurrMomentum = (0, 0, 0), fCurrRemovalEnergy = 0, GenerateNucleon_radii = []\<rparr>"

definition fresh_evrec :: evrec where
  "fresh_evrec =
     \<lparr>kine = \<lparr>kv_Q2 = None, kv_W = None, kv_x = None, kv_y = None,
              kv_SelQ2 = None, kv_SelW = None, kv_Selx = None, kv_Sely = None\<rparr>,
      kine_calls = [], FSLeptonP4 = (0, 0, 0, 0), HadSystP4 = (0, 0, 0, 0), particles = [],
      kKineGenErr = False, DiffXSec = None, fEb = 0, hit_nucleon_p4 = None,
      nucleon_throws = 0, xsec_evals = [], MaxXSec_calls = 0, SetIgnoreNext_calls = 0\<rparr>"

section \<open>Properties of the sampler\<close>


lemma kine_call_simps [simp]:
  "kine (kine_call c ev) = kine_apply c (kine ev)"
  "kine_calls (kine_call c ev) = kine_calls ev @ [c]"
  "particles (kine_call c ev) = particles ev"
  "nucleon_throws (kine_call c ev) = nucleon_throws ev"
  "xsec_evals (kine_call c ev) = xsec_evals ev"
  "DiffXSec (kine_call c ev) = DiffXSec ev"
  "SetIgnoreNext_calls (kine_call c ev) = SetIgnoreNext_calls ev"
  "MaxXSec_calls (kine_call c ev) = MaxXSec_calls ev"
  "kKineGenErr (kine_call c ev) = kKineGenErr ev"
  "FSLeptonP4 (kine_call c ev) = FSLeptonP4 ev"
  "HadSystP4 (kine_call c ev) = HadSystP4 ev"
  by (simp_all add: kine_call_def)

lemma locked_running [simp]:
  "\<not> is_locking c \<Longrightarrow> locked (kine_apply c k) = locked k"
  by (cases c) (simp_all add: locked_def)

lemma degenerate_iff [simp]: "min 1 (c::real) \<le> - 1 \<longleftrightarrow> c \<le> - 1"
  by (simp add: min_def)


text \<open>
  Claim C7. A pass of the loop whose \<^verbatim>\<open>CosTheta0Max\<close> is at most -1 ends right after
  the nucleon state is set: the pass continues with the next iteration, the evaluator of
  the differential cross section is not called (the list of evaluations is unchanged), and
  the result depends neither on the cross section, nor on the bound, nor on the random
  number of the acceptance test.
\<close>

theorem degenerate_window_skips:
  assumes "CosTheta0Max tr \<le> - 1"
  shows "iteration g e xsec_max tr ev = Continue (sample_nucleon tr ev) \<and>
         xsec_evals (sample_nucleon tr ev) = xsec_evals ev"
  using assms by (simp add: iteration_def Let_def sample_nucleon_def)

theorem degenerate_window_skips_witness:
  "CosTheta0Max (toy_trial\<lparr>CosTheta0Max := - 3 / 2\<rparr>) \<le> - 1 \<and>
   iteration default_generator toy_env 2 (toy_trial\<lparr>CosTheta0Max := - 3 / 2\<rparr>) fresh_evrec
     = Continue (sample_nucleon (toy_trial\<lparr>CosTheta0Max := - 3 / 2\<rparr>) fresh_evrec) \<and>
   xsec_evals (sample_nucleon (toy_trial\<lparr>CosTheta0Max := - 3 / 2\<rparr>) fresh_evrec) = []"
proof -
  have h: "CosTheta0Max (toy_trial\<lparr>CosTheta0Max := - 3 / 2\<rparr>) \<le> - 1" by simp
  from degenerate_window_skips [OF h, of default_generator toy_env 2 fresh_evrec] h
  show ?thesis by (simp add: fresh_evrec_def)
qed

lemma binding_correction_Inl:
  "binding_correction g e tr ev = Inl ev' \<Longrightarrow> ev' = ev\<lparr>fEb := corr_Eb tr\<rparr>"
  by (auto simp: binding_correction_def Let_def split: if_splits)

lemma on_accept_Continue:
  "on_accept g e tr ev = Continue ev' \<Longrightarrow> ev' = ev\<lparr>fEb := corr_Eb tr\<rparr>"
  by (auto simp: on_accept_def split: if_splits sum.splits dest: binding_correction_Inl)

lemma iteration_Continue_frame:
  assumes "iteration g e xsec_max tr ev = Continue ev'"
  shows "particles ev' = particles ev \<and> locked (kine ev') = locked (kine ev) \<and>
         nucleon_throws ev' = nucleon_throws ev + 1 \<and> DiffXSec ev' = DiffXSec ev \<and>
         SetIgnoreNext_calls ev' = SetIgnoreNext_calls ev \<and> MaxXSec_calls ev' = MaxXSec_calls ev
         \<and> kKineGenErr ev' = kKineGenErr ev \<and>
         filter is_locking (kine_calls ev') = filter is_locking (kine_calls ev)"
  using assms
  by (auto simp: iteration_def Let_def locked_def sample_nucleon_def evaluate_xsec_def
           split: if_splits dest!: on_accept_Continue)

lemma unat_succ_less:
  fixes a :: "32 word"
  assumes "unat a < 2 ^ 32 - 1"
  shows "unat (a + 1) = Suc (unat a)"
  using assms by (simp add: unat_word_ariths)

lemma loop_exhausted:
  assumes "\<forall>i<n. \<forall>ev. is_Continue (iteration g e xsec_max (trials i) ev)"
    and "unat iter + n = unat (kRjMaxIterations e)"
    and "unat (kRjMaxIterations e) < 2 ^ 32 - 1"
    and "n < fuel"
  shows "\<exists>ev'. accept_reject_loop fuel g e xsec_max trials iter ev
                 = Some (Thrown KinematicSelectionFailure ev') \<and>
               nucleon_throws ev' = nucleon_throws ev + n \<and>
               particles ev' = particles ev \<and>
               locked (kine ev') = locked (kine ev) \<and>
               filter is_locking (kine_calls ev') = filter is_locking (kine_calls ev) \<and>
               DiffXSec ev' = DiffXSec ev \<and> kKineGenErr ev'"
  using assms
proof (induction n arbitrary: fuel trials iter ev)
  case 0
  then obtain f where f: "fuel = Suc f" by (cases fuel) auto
  from 0 have eq: "unat iter = unat (kRjMaxIterations e)" by simp
  with 0 have "unat (iter + 1) = Suc (unat iter)" by (simp add: unat_succ_less)
  then have "iter + 1 > kRjMaxIterations e" using eq by (simp add: word_less_nat_alt)
  then show ?case by (simp add: f Let_def)
next
  case (Suc n)
  then obtain f where f: "fuel = Suc f" and nf: "n < f" by (cases fuel) auto
  from Suc.prems have lt: "unat iter < unat (kRjMaxIterations e)" by simp
  with Suc.prems(3) have u: "unat (iter + 1) = Suc (unat iter)" by (simp add: unat_succ_less)
  then have le: "\<not> iter + 1 > kRjMaxIterations e" using lt by (simp add: word_less_nat_alt)
  from Suc.prems(1) have "is_Continue (iteration g e xsec_max (trials 0) ev)" by simp
  then obtain ev1 where it: "iteration g e xsec_max (trials 0) ev = Continue ev1"
    by (cases "iteration g e xsec_max (trials 0) ev") auto
  note fr = iteration_Continue_frame [OF it]
  have a: "\<forall>i<n. \<forall>ev. is_Continue (iteration g e xsec_max (trials (Suc i)) ev)"
    using Suc.prems(1) by simp
  have b: "unat (iter + 1) + n = unat (kRjMaxIterations e)" using u Suc.prems(2) by simp
  from Suc.IH [OF a b Suc.prems(3) nf, of ev1]
  obtain ev' where r: "accept_reject_loop f g e xsec_max (\<lambda>i. trials (Suc i)) (iter + 1) ev1
                 = Some (Thrown KinematicSelectionFailure ev')"
     "nucleon_throws ev' = nucleon_throws ev1 + n"
     "particles ev' = particles ev1" "locked (kine ev') = locked (kine ev1)"
     "filter is_locking (kine_calls ev') = filter is_locking (kine_calls ev1)"
     "DiffXSec ev' = DiffXSec ev1" "kKineGenErr ev'" by blast
  show ?case using r fr le it by (simp add: f Let_def)
qed

section \<open>The iteration limit\<close>

text \<open>
  Claim C2. When the loop is reached and each of the first \<^verbatim>\<open>kRjMaxIterations\<close> passes
  ends without acceptance (whatever state it starts from), \<^verbatim>\<open>ProcessEventRecord\<close>
  makes exactly \<^verbatim>\<open>kRjMaxIterations\<close> attempts and then throws the exception of a failed
  kinematic selection, with the flag \<^verbatim>\<open>kKineGenErr\<close> set; no particle has been added
  and no kinematic variable has been locked. The limit is below the largest
  \<^verbatim>\<open>unsigned int\<close>, so that the counter does not wrap around, and the fuel of the model
  exceeds it.
\<close>

theorem exhausted_loop_raises:
  assumes "tgt_IsNucleus e \<longrightarrow> hit_nucleon_set e"
    and "have_nucleus e \<longrightarrow> fnucleus_found e"
    and "unat (kRjMaxIterations e) < 2 ^ 32 - 1"
    and "\<forall>i < unat (kRjMaxIterations e). \<forall>ev'.
           is_Continue (iteration g e (fst (select_xsec_max g e ev)) (trials i) ev')"
    and "unat (kRjMaxIterations e) < fuel"
  shows "\<exists>ev'. ProcessEventRecord fuel g e trials ev = Some (Thrown KinematicSelectionFailure ev') \<and>
           nucleon_throws ev' = nucleon_throws ev + unat (kRjMaxIterations e) \<and>
           particles ev' = particles ev \<and>
           locked (kine ev') = locked (kine ev) \<and>
           filter is_locking (kine_calls ev') = filter is_locking (kine_calls ev) \<and>
           kKineGenErr ev'"
proof -
  obtain xm ev1 where sel: "select_xsec_max g e ev = (xm, ev1)" by (cases "select_xsec_max g e ev")
  have fr: "nucleon_throws ev1 = nucleon_throws ev" "particles ev1 = particles ev"
    "kine ev1 = kine ev" "kine_calls ev1 = kine_calls ev"
    using sel by (auto simp: select_xsec_max_def split: if_splits)
  have c: "\<forall>i < unat (kRjMaxIterations e). \<forall>ev'. is_Continue (iteration g e xm (trials i) ev')"
    using assms(4) sel by simp
  have z: "unat (0 :: 32 word) + unat (kRjMaxIterations e) = unat (kRjMaxIterations e)" by simp
  from loop_exhausted [OF c z assms(3) assms(5), of ev1]
  show ?thesis using assms(1,2) sel fr by (auto simp: ProcessEventRecord_def)
qed

theorem exhausted_loop_raises_witness:
  "hit_nucleon_set toy_env \<and> fnucleus_found toy_env \<and>
   unat (kRjMaxIterations toy_env) = 5 \<and>
   is_Continue (iteration default_generator toy_env
        (fst (select_xsec_max default_generator toy_env fresh_evrec)) (toy_trial\<lparr>xsec := 0\<rparr>)
        fresh_evrec) \<and>
   (\<exists>ev'. ProcessEventRecord 6 default_generator toy_env (\<lambda>n. toy_trial\<lparr>xsec := 0\<rparr>) fresh_evrec
            = Some (Thrown KinematicSelectionFailure ev') \<and>
          nucleon_throws ev' = 5 \<and> particles ev' = [] \<and> kKineGenErr ev')"
proof -
  have h1: "tgt_IsNucleus toy_env \<longrightarrow> hit_nucleon_set toy_env" by (simp add: toy_env_def)
  have h2: "have_nucleus toy_env \<longrightarrow> fnucleus_found toy_env" by (simp add: toy_env_def)
  have h3: "unat (kRjMaxIterations toy_env) < 2 ^ 32 - 1" by (simp add: toy_env_def)
  have h4: "\<forall>i < unat (kRjMaxIterations toy_env). \<forall>ev'.
      is_Continue (iteration default_generator toy_env
        (fst (select_xsec_max default_generator toy_env fresh_evrec))
        ((\<lambda>n. toy_trial\<lparr>xsec := 0\<rparr>) i) ev')"
    by (simp add: iteration_def select_xsec_max_def default_generator_def toy_env_def
        toy_trial_def Let_def)
  have h5: "unat (kRjMaxIterations toy_env) < 6" by (simp add: toy_env_def)
  from exhausted_loop_raises [OF h1 h2 h3 h4 h5]
  have "\<exists>ev'. ProcessEventRecord 6 default_generator toy_env (\<lambda>n. toy_trial\<lparr>xsec := 0\<rparr>) fresh_evrec
            = Some (Thrown KinematicSelectionFailure ev') \<and>
          nucleon_throws ev' = 5 \<and> particles ev' = [] \<and> kKineGenErr ev'"
    by (auto simp: toy_env_def fresh_evrec_def)
  moreover have "hit_nucleon_set toy_env \<and> fnucleus_found toy_env \<and>
      unat (kRjMaxIterations toy_env) = 5" by (simp add: toy_env_def)
  moreover have "is_Continue (iteration default_generator toy_env
        (fst (select_xsec_max default_generator toy_env fresh_evrec)) (toy_trial\<lparr>xsec := 0\<rparr>)
        fresh_evrec)"
    by (simp add: iteration_def select_xsec_max_def default_generator_def toy_env_def
        toy_trial_def Let_def)
  ultimately show ?thesis by blast
qed

section \<open>The acceptance test\<close>





section \<open>The binding-energy correction\<close>



lemma binding_correction_Inr:
  "binding_correction g e tr ev = Inr ev' \<Longrightarrow>
     SetIgnoreNext_calls ev' =
       SetIgnoreNext_calls ev +
         (if lab_outNucleon_P tr < kF e \<and> ev_hadsyst_P tr \<ge> kF e then 1 else 0) \<and>
     kine ev' = (kine ev)\<lparr>kv_Q2 := Some (corr_Q2 tr)\<rparr> \<and>
     kine_calls ev' = kine_calls ev @ [SetQ2 (corr_Q2 tr) False]"
  by (auto simp: binding_correction_def Let_def split: if_splits)

lemma finish_event_frame:
  "SetIgnoreNext_calls (finish_event e tr ev) = SetIgnoreNext_calls ev"
  by (simp add: finish_event_def Let_def split: prod.splits)

text \<open>
  Claim C8. For a nuclear target in the mode \<^verbatim>\<open>kOnShellWithCorrection\<close>, a pass that
  ends accepted (so the corrected kinematics have passed every check) calls
  \<^verbatim>\<open>SetIgnoreNext\<close> once if the corrected momentum of the recoil nucleon is below the
  Fermi momentum while the uncorrected one is at least the Fermi momentum, and not at all
  otherwise.
\<close>

theorem pauli_override_iff:
  assumes "tgt_IsNucleus e"
    and "fHitNucleonBindingMode g = kOnShellWithCorrection"
    and "iteration g e xsec_max tr ev = Accepted ev'"
  shows "SetIgnoreNext_calls ev' =
           SetIgnoreNext_calls ev +
             (if lab_outNucleon_P tr < kF e \<and> ev_hadsyst_P tr \<ge> kF e then 1 else 0)"
proof -
  let ?ev2 = "evaluate_xsec tr (sample_nucleon tr ev)"
  have s: "SetIgnoreNext_calls ?ev2 = SetIgnoreNext_calls ev"
    by (simp add: evaluate_xsec_def sample_nucleon_def)
  from assms(3) have "on_accept g e tr ?ev2 = Accepted ev'"
    by (auto simp: iteration_def Let_def split: if_splits)
  then obtain ev3 where c: "binding_correction g e tr ?ev2 = Inr ev3"
    and f: "ev' = finish_event e tr ev3"
    using assms(1,2) by (auto simp: on_accept_def split: sum.splits)
  from binding_correction_Inr [OF c] s f show ?thesis by (simp add: finish_event_frame)
qed


theorem pauli_override_iff_witness:
  "tgt_IsNucleus toy_env \<and>
   fHitNucleonBindingMode (default_generator\<lparr>fHitNucleonBindingMode := kOnShellWithCorrection\<rparr>)
     = kOnShellWithCorrection \<and>
   is_Accepted (iteration (default_generator\<lparr>fHitNucleonBindingMode := kOnShellWithCorrection\<rparr>)
      toy_env 2 (toy_trial\<lparr>Rndm := 1 / 4\<rparr>) fresh_evrec) \<and>
   lab_outNucleon_P (toy_trial\<lparr>Rndm := 1 / 4\<rparr>) < kF toy_env \<and>
   ev_hadsyst_P (toy_trial\<lparr>Rndm := 1 / 4\<rparr>) \<ge> kF toy_env \<and>
   SetIgnoreNext_calls (pass_state
     (iteration (default_generator\<lparr>fHitNucleonBindingMode := kOnShellWithCorrection\<rparr>)
        toy_env 2 (toy_trial\<lparr>Rndm := 1 / 4\<rparr>) fresh_evrec)) = 1"
proof -
  let ?g = "default_generator\<lparr>fHitNucleonBindingMode := kOnShellWithCorrection\<rparr>"
  let ?tr = "toy_trial\<lparr>Rndm := 1 / 4\<rparr>"
  have h1: "tgt_IsNucleus toy_env" by (simp add: toy_env_def)
  have h2: "fHitNucleonBindingMode ?g = kOnShellWithCorrection" by simp
  have a: "is_Accepted (iteration ?g toy_env 2 ?tr fresh_evrec)"
    by (simp add: iteration_def on_accept_def binding_correction_def toy_env_def toy_trial_def
        default_generator_def Let_def)
  then have h3: "iteration ?g toy_env 2 ?tr fresh_evrec
                   = Accepted (pass_state (iteration ?g toy_env 2 ?tr fresh_evrec))"
    by (cases "iteration ?g toy_env 2 ?tr fresh_evrec") auto
  have c: "lab_outNucleon_P ?tr < kF toy_env \<and> ev_hadsyst_P ?tr \<ge> kF toy_env"
    by (simp add: toy_env_def toy_trial_def)
  from pauli_override_iff [OF h1 h2 h3] c
  have "SetIgnoreNext_calls (pass_state (iteration ?g toy_env 2 ?tr fresh_evrec)) = 1"
    by (simp add: fresh_evrec_def)
  with h1 h2 a c show ?thesis by blast
qed

lemma Q2_running_set [simp]: "Q2_running (k\<lparr>kv_Q2 := Some q\<rparr>) = q"
  by (simp add: Q2_running_def)

lemma finish_event_kine:
  assumes "kv_Q2 (kine ev) = Some q"
  shows "kine (finish_event e tr ev) =
           \<lparr>kv_Q2 = None, kv_W = None, kv_x = None, kv_y = None,
            kv_SelQ2 = Some q, kv_SelW = Some (recoil_hadron_mass e),
            kv_Selx = Some (fst (WQ2toXY e (ProbeE_HitNucRest tr) (HitNucP4_M tr) (recoil_hadron_mass e) q)),
            kv_Sely = Some (snd (WQ2toXY e (ProbeE_HitNucRest tr) (HitNucP4_M tr) (recoil_hadron_mass e) q))\<rparr>"
    and "kine_calls (finish_event e tr ev) =
           kine_calls ev @
             [SetQ2 q True, SetW (recoil_hadron_mass e) True,
              Setx (fst (WQ2toXY e (ProbeE_HitNucRest tr) (HitNucP4_M tr) (recoil_hadron_mass e) q)) True,
              Sety (snd (WQ2toXY e (ProbeE_HitNucRest tr) (HitNucP4_M tr) (recoil_hadron_mass e) q)) True,
              ClearRunningValues]"
  using assms
  by (simp_all add: finish_event_def Let_def Q2_running_def split: prod.splits)

section \<open>Locking the selected kinematics\<close>

text \<open>
  Claim C9, as amended. A pass that ends accepted converts (E, M, W, Q2) to (x, y) with
  \<^verbatim>\<open>WQ2toXY\<close>, writes the locked Q2, W, x and y, and clears the running values after
  the locked values are written (\<^verbatim>\<open>ClearRunningValues\<close> is the last call on the
  kinematics), so that the interaction holds exactly the locked set: Q2 as read from the
  running value (the corrected one when the correction was applied), W the mass of the
  recoil hadron, and the x and y computed from them.
\<close>

theorem locked_set_then_cleared:
  assumes "iteration g e xsec_max tr ev = Accepted ev'"
  shows
    "let corrected = (tgt_IsNucleus e \<and> fHitNucleonBindingMode g = kOnShellWithCorrection);
         gQ2 = (if corrected then corr_Q2 tr else ev_Q2 tr);
         gW = recoil_hadron_mass e;
         (gx, gy) = WQ2toXY e (ProbeE_HitNucRest tr) (HitNucP4_M tr) gW gQ2
     in kine ev' =
          \<lparr>kv_Q2 = None, kv_W = None, kv_x = None, kv_y = None,
           kv_SelQ2 = Some gQ2, kv_SelW = Some gW, kv_Selx = Some gx, kv_Sely = Some gy\<rparr> \<and>
        kine_calls ev' =
          kine_calls ev @ [SetQ2 (ev_Q2 tr) False] @
          (if corrected then [SetQ2 (corr_Q2 tr) False] else []) @
          [SetQ2 gQ2 True, SetW gW True, Setx gx True, Sety gy True, ClearRunningValues]"
proof -
  let ?ev2 = "evaluate_xsec tr (sample_nucleon tr ev)"
  have k2: "kine ?ev2 = (kine ev)\<lparr>kv_Q2 := Some (ev_Q2 tr)\<rparr>"
    and c2: "kine_calls ?ev2 = kine_calls ev @ [SetQ2 (ev_Q2 tr) False]"
    by (simp_all add: evaluate_xsec_def sample_nucleon_def)
  from assms have acc: "on_accept g e tr ?ev2 = Accepted ev'"
    by (auto simp: iteration_def Let_def split: if_splits)
  show ?thesis
  proof (cases "tgt_IsNucleus e \<and> fHitNucleonBindingMode g = kOnShellWithCorrection")
    case True
    with acc obtain ev3 where c: "binding_correction g e tr ?ev2 = Inr ev3"
      and f: "ev' = finish_event e tr ev3"
      by (auto simp: on_accept_def split: sum.splits)
    from binding_correction_Inr [OF c] k2 c2
    have k3: "kv_Q2 (kine ev3) = Some (corr_Q2 tr)"
      and c3: "kine_calls ev3 = kine_calls ev @ [SetQ2 (ev_Q2 tr) False] @ [SetQ2 (corr_Q2 tr) False]"
      by simp_all
    from finish_event_kine [OF k3, of e tr] c3 f True show ?thesis
      by (simp add: Let_def split: prod.splits)
  next
    case False
    with acc have f: "ev' = finish_event e tr ?ev2" by (auto simp: on_accept_def)
    have k3: "kv_Q2 (kine ?ev2) = Some (ev_Q2 tr)" using k2 by simp
    from finish_event_kine [OF k3, of e tr] c2 f False show ?thesis
      by (simp add: Let_def split: prod.splits)
  qed
qed


theorem locked_set_then_cleared_witness:
  "is_Accepted (iteration default_generator toy_env 2 (toy_trial\<lparr>Rndm := 1 / 4\<rparr>) fresh_evrec) \<and>
   kine (pass_state (iteration default_generator toy_env 2 (toy_trial\<lparr>Rndm := 1 / 4\<rparr>) fresh_evrec)) =
     \<lparr>kv_Q2 = None, kv_W = None, kv_x = None, kv_y = None,
      kv_SelQ2 = Some (1 / 2), kv_SelW = Some 1, kv_Selx = Some 1, kv_Sely = Some (1 / 8)\<rparr> \<and>
   kine_calls (pass_state (iteration default_generator toy_env 2 (toy_trial\<lparr>Rndm := 1 / 4\<rparr>) fresh_evrec)) =
     [SetQ2 (1 / 2) False, SetQ2 (1 / 2) True, SetW 1 True, Setx 1 True, Sety (1 / 8) True,
      ClearRunningValues]"
proof -
  let ?tr = "toy_trial\<lparr>Rndm := 1 / 4\<rparr>"
  let ?r = "iteration default_generator toy_env 2 ?tr fresh_evrec"
  have a: "is_Accepted ?r"
    by (simp add: iteration_def on_accept_def toy_env_def toy_trial_def default_generator_def Let_def)
  then have h: "?r = Accepted (pass_state ?r)" by (cases ?r) auto
  from locked_set_then_cleared [OF h]
  have "kine (pass_state ?r) =
     \<lparr>kv_Q2 = None, kv_W = None, kv_x = None, kv_y = None,
      kv_SelQ2 = Some (1 / 2), kv_SelW = Some 1, kv_Selx = Some 1, kv_Sely = Some (1 / 8)\<rparr> \<and>
     kine_calls (pass_state ?r) =
     [SetQ2 (1 / 2) False, SetQ2 (1 / 2) True, SetW 1 True, Setx 1 True, Sety (1 / 8) True,
      ClearRunningValues]"
    by (simp add: toy_env_def toy_trial_def default_generator_def fresh_evrec_def Let_def)
  with a show ?thesis by blast
qed

text \<open>
  The claim C9 as stated has the running values cleared before the locked values are
  written. On an accepted trial the calls come in the other order: the four locked values
  are written first and \<^verbatim>\<open>ClearRunningValues\<close> is called after them.
\<close>

theorem cleared_before_locking_counterexample:
  "is_Accepted (iteration default_generator toy_env 2 (toy_trial\<lparr>Rndm := 1 / 4\<rparr>) fresh_evrec) \<and>
   \<not> cleared_before_locking
       (kine_calls (pass_state
          (iteration default_generator toy_env 2 (toy_trial\<lparr>Rndm := 1 / 4\<rparr>) fresh_evrec)))"
  by (simp add: iteration_def on_accept_def finish_event_def evaluate_xsec_def sample_nucleon_def
      kine_call_def toy_env_def toy_trial_def default_generator_def fresh_evrec_def Let_def)

lemma on_accept_MaxXSec_calls:
  "MaxXSec_calls (pass_state (on_accept g e tr ev)) = MaxXSec_calls ev"
  by (auto simp: on_accept_def binding_correction_def finish_event_def Let_def
      split: sum.splits prod.splits if_splits)

lemma iteration_MaxXSec_calls:
  "MaxXSec_calls (pass_state (iteration g e xsec_max tr ev)) = MaxXSec_calls ev"
  by (simp add: iteration_def Let_def on_accept_MaxXSec_calls evaluate_xsec_def sample_nucleon_def)

lemma loop_MaxXSec_calls:
  "accept_reject_loop fuel g e xsec_max trials iter ev = Some r \<Longrightarrow>
     MaxXSec_calls (final_state r) = MaxXSec_calls ev"
proof (induction fuel arbitrary: trials iter ev)
  case 0
  then show ?case by simp
next
  case (Suc fuel)
  show ?case
  proof (cases "iter + 1 > kRjMaxIterations e")
    case True
    with Suc.prems show ?thesis by (auto simp: Let_def)
  next
    case False
    note it = iteration_MaxXSec_calls [of g e xsec_max "trials 0" ev]
    show ?thesis
    proof (cases "iteration g e xsec_max (trials 0) ev")
      case (Continue ev1)
      with Suc.prems False
      have "accept_reject_loop fuel g e xsec_max (\<lambda>n. trials (Suc n)) (iter + 1) ev1 = Some r"
        by (simp add: Let_def)
      from Suc.IH [OF this] it Continue show ?thesis by simp
    next
      case (Accepted ev1)
      with Suc.prems False it show ?thesis by (auto simp: Let_def)
    next
      case (Raised err ev1)
      with Suc.prems False it show ?thesis by (auto simp: Let_def)
    qed
  qed
qed

section \<open>Uniform generation over the phase space\<close>

text \<open>
  Claim C10. With \<^verbatim>\<open>fGenerateUniformly\<close> set, the bound is -1 and no run of
  \<^verbatim>\<open>ProcessEventRecord\<close> computes the maximum cross section; for every random number
  in \<open>(0, 1]\<close> the threshold \<open>-1 * Rndm()\<close> is negative, so a trial with a non-degenerate
  angular window and a cross section that is not negative (zero included) enters the
  accepted branch, provided \<^verbatim>\<open>AssertXSecLimits\<close> returns.
\<close>

theorem uniform_mode_accepts_every_trial:
  assumes "fGenerateUniformly g"
    and "CosTheta0Max tr > - 1"
    and "0 \<le> xsec tr"
    and "0 < Rndm tr" and "Rndm tr \<le> 1"
    and "AssertXSecLimits e (xsec tr) (- 1)"
  shows "select_xsec_max g e ev = (- 1, ev) \<and>
         (\<forall>fuel trials r. ProcessEventRecord fuel g e trials ev = Some r \<longrightarrow>
            MaxXSec_calls (final_state r) = MaxXSec_calls ev) \<and>
         - 1 * Rndm tr < 0 \<and>
         iteration g e (fst (select_xsec_max g e ev)) tr ev1 =
           on_accept g e tr (evaluate_xsec tr (sample_nucleon tr ev1))"
proof -
  have sel: "select_xsec_max g e ev = (- 1, ev)" using assms(1) by (simp add: select_xsec_max_def)
  have calls: "MaxXSec_calls (final_state r) = MaxXSec_calls ev"
    if "ProcessEventRecord fuel g e trials ev = Some r" for fuel trials r
    using that sel
    by (auto simp: ProcessEventRecord_def split: if_splits dest: loop_MaxXSec_calls)
  have neg: "- 1 * Rndm tr < 0" using assms(4) by simp
  then have "- 1 * Rndm tr < xsec tr" using assms(3) by linarith
  then have "iteration g e (- 1) tr ev1 = on_accept g e tr (evaluate_xsec tr (sample_nucleon tr ev1))"
    using assms(2,6) by (simp add: iteration_def Let_def)
  with sel calls neg show ?thesis by simp
qed

theorem uniform_mode_accepts_every_trial_witness:
  "fGenerateUniformly (default_generator\<lparr>fGenerateUniformly := True\<rparr>) \<and>
   CosTheta0Max (toy_trial\<lparr>xsec := 0, Rndm := 1\<rparr>) > - 1 \<and>
   0 \<le> xsec (toy_trial\<lparr>xsec := 0, Rndm := 1\<rparr>) \<and>
   0 < Rndm (toy_trial\<lparr>xsec := 0, Rndm := 1\<rparr>) \<and> Rndm (toy_trial\<lparr>xsec := 0, Rndm := 1\<rparr>) \<le> 1 \<and>
   AssertXSecLimits toy_env (xsec (toy_trial\<lparr>xsec := 0, Rndm := 1\<rparr>)) (- 1) \<and>
   ProcessEventRecord 1 (default_generator\<lparr>fGenerateUniformly := True\<rparr>) toy_env
       (\<lambda>n. toy_trial\<lparr>xsec := 0, Rndm := 1\<rparr>) fresh_evrec
     = Some (Done (pass_state (on_accept (default_generator\<lparr>fGenerateUniformly := True\<rparr>) toy_env
          (toy_trial\<lparr>xsec := 0, Rndm := 1\<rparr>)
          (evaluate_xsec (toy_trial\<lparr>xsec := 0, Rndm := 1\<rparr>)
             (sample_nucleon (toy_trial\<lparr>xsec := 0, Rndm := 1\<rparr>) fresh_evrec))))) \<and>
   MaxXSec_calls (pass_state (on_accept (default_generator\<lparr>fGenerateUniformly := True\<rparr>) toy_env
          (toy_trial\<lparr>xsec := 0, Rndm := 1\<rparr>)
          (evaluate_xsec (toy_trial\<lparr>xsec := 0, Rndm := 1\<rparr>)
             (sample_nucleon (toy_trial\<lparr>xsec := 0, Rndm := 1\<rparr>) fresh_evrec)))) = 0"
proof -
  let ?g = "default_generator\<lparr>fGenerateUniformly := True\<rparr>"
  let ?tr = "toy_trial\<lparr>xsec := 0, Rndm := 1\<rparr>"
  have h1: "fGenerateUniformly ?g" by simp
  have h2: "CosTheta0Max ?tr > - 1" by (simp add: toy_trial_def)
  have h3: "0 \<le> xsec ?tr" by simp
  have h4: "0 < Rndm ?tr" by simp
  have h5: "Rndm ?tr \<le> 1" by simp
  have h6: "AssertXSecLimits toy_env (xsec ?tr) (- 1)" by (simp add: toy_env_def)
  note t = uniform_mode_accepts_every_trial [OF h1 h2 h3 h4 h5 h6, of fresh_evrec fresh_evrec]
  have acc: "is_Accepted (on_accept ?g toy_env ?tr (evaluate_xsec ?tr (sample_nucleon ?tr fresh_evrec)))"
    by (simp add: on_accept_def default_generator_def)
  have run: "ProcessEventRecord 1 ?g toy_env (\<lambda>n. ?tr) fresh_evrec
     = Some (Done (pass_state (on_accept ?g toy_env ?tr
          (evaluate_xsec ?tr (sample_nucleon ?tr fresh_evrec)))))"
    using t acc
    by (cases "on_accept ?g toy_env ?tr (evaluate_xsec ?tr (sample_nucleon ?tr fresh_evrec))")
       (auto simp: ProcessEventRecord_def One_nat_def Let_def toy_env_def)
  from t have inv: "MaxXSec_calls (final_state r) = MaxXSec_calls fresh_evrec"
    if "ProcessEventRecord fuel ?g toy_env trials fresh_evrec = Some r" for fuel trials r
    using that by blast
  have z: "MaxXSec_calls fresh_evrec = 0" by (simp add: fresh_evrec_def)
  from inv [OF run] z have "MaxXSec_calls (pass_state (on_accept ?g toy_env ?tr
          (evaluate_xsec ?tr (sample_nucleon ?tr fresh_evrec)))) = 0"
    by simp
  with h1 h2 h3 h4 h5 h6 run show ?thesis by blast
qed

section \<open>Properties of the estimator\<close>


lemma GenerateNucleon_radii_step [simp]:
  "GenerateNucleon_radii (GenerateNucleon E r nm) = GenerateNucleon_radii nm @ [r]"
  by (simp add: GenerateNucleon_def split: prod.splits)

lemma GenerateNucleon_sample [simp]:
  "fCurrMomentum (GenerateNucleon E r nm) = fst (nucleon_samples E (length (GenerateNucleon_radii nm)) r)"
  "fCurrRemovalEnergy (GenerateNucleon E r nm) = snd (nucleon_samples E (length (GenerateNucleon_radii nm)) r)"
  by (simp_all add: GenerateNucleon_def split: prod.splits)

lemma nucleon_throw_eq:
  "nucleon_throw E (nm, a) =
     (GenerateNucleon E 0 nm,
      let pw = nucleon_samples E (length (GenerateNucleon_radii nm)) 0
      in if window_ok E pw then record_throw a pw else a)"
  by (simp add: nucleon_throw_def Let_def window_ok_def record_throw_def Momentum_def
      RemovalEnergy_def)

lemma thrown_nucleons_Suc:
  "thrown_nucleons E nm (Suc n) =
     nucleon_samples E (length (GenerateNucleon_radii nm)) 0 #
       thrown_nucleons E (GenerateNucleon E 0 nm) n"
proof -
  have "[0..<Suc n] = 0 # map Suc [0..<n]" by (simp add: upt_conv_Cons map_Suc_upt del: upt_Suc)
  then show ?thesis by (simp add: thrown_nucleons_def comp_def del: upt_Suc)
qed

lemma nucleon_throws_loop_eq:
  "nucleon_throws_loop E n (nm, a) =
     ((GenerateNucleon E 0 ^^ n) nm,
      foldl record_throw a (filter (window_ok E) (thrown_nucleons E nm n)))"
proof (induction n arbitrary: nm a)
  case 0
  then show ?case by (simp add: thrown_nucleons_def)
next
  case (Suc n)
  show ?case
    by (simp add: nucleon_throw_eq Suc.IH thrown_nucleons_Suc funpow_swap1 Let_def
        del: upt_Suc)
qed

lemma radii_funpow:
  "GenerateNucleon_radii ((GenerateNucleon E 0 ^^ n) nm) = GenerateNucleon_radii nm @ replicate n 0"
  by (induction n) (simp_all add: replicate_append_same)

lemma foldl_record_ok:
  "one_nucleon_ok (foldl record_throw a xs) = (one_nucleon_ok a \<or> xs \<noteq> [])"
  by (induction xs arbitrary: a) (simp_all add: record_throw_def)

lemma Min_insert_min:
  fixes a x :: real
  assumes "finite S"
  shows "Min (insert (min a x) S) = Min (insert a (insert x S))"
proof (cases "S = {}")
  case True
  then show ?thesis by (simp add: min.commute)
next
  case False
  with assms show ?thesis by (simp add: min.assoc)
qed

lemma Max_insert_max:
  fixes a x :: real
  assumes "finite S"
  shows "Max (insert (max a x) S) = Max (insert a (insert x S))"
proof (cases "S = {}")
  case True
  then show ?thesis by (simp add: max.commute)
next
  case False
  with assms show ?thesis by (simp add: max.assoc)
qed

lemma foldl_record_min:
  "min_energy (foldl record_throw a xs) = Min (insert (min_energy a) (snd ` set xs))"
proof (induction xs arbitrary: a)
  case Nil
  then show ?case by simp
next
  case (Cons x xs)
  have "min_energy (foldl record_throw a (x # xs))
          = Min (insert (min (min_energy a) (snd x)) (snd ` set xs))"
    by (simp add: Cons.IH record_throw_def)
  also have "\<dots> = Min (insert (min_energy a) (insert (snd x) (snd ` set xs)))"
    by (rule Min_insert_min) simp
  finally show ?case by simp
qed

lemma foldl_record_max:
  "max_momentum (foldl record_throw a xs) = Max (insert (max_momentum a) ((Mag \<circ> fst) ` set xs))"
proof (induction xs arbitrary: a)
  case Nil
  then show ?case by simp
next
  case (Cons x xs)
  have "max_momentum (foldl record_throw a (x # xs))
          = Max (insert (max (max_momentum a) (Mag (fst x))) ((Mag \<circ> fst) ` set xs))"
    by (simp add: Cons.IH record_throw_def)
  also have "\<dots> = Max (insert (max_momentum a) (insert (Mag (fst x)) ((Mag \<circ> fst) ` set xs)))"
    by (rule Max_insert_max) simp
  finally show ?case by simp
qed

lemma Mag_nonneg [simp]: "0 \<le> Mag v"
  by (simp add: Mag_def split: prod.splits)

lemma Mag_z [simp]: "Mag (0, 0, z) = \<bar>z\<bar>"
  by (simp add: Mag_def)

lemma DBL_MAX_pos: "1 \<le> DBL_MAX"
proof -
  have "(1::real) \<le> 1 * 2 ^ 1023" by simp
  also have "\<dots> \<le> (2 - 1 / 2 ^ 52) * 2 ^ 1023" by (intro mult_right_mono) simp_all
  finally show ?thesis by (simp add: DBL_MAX_def)
qed

lemma Min_drop_bound:
  fixes m :: real
  assumes "finite S" "S \<noteq> {}" "\<forall>x\<in>S. x \<le> m"
  shows "Min (insert m S) = Min S"
proof -
  have le: "Min S \<le> m" using assms by (meson Min_in)
  have "Min (insert m S) = min m (Min S)" using assms by (intro Min_insert) auto
  also have "\<dots> = Min S" using le by (rule min_absorb2)
  finally show ?thesis .
qed

lemma Max_drop_bound:
  fixes m :: real
  assumes "finite S" "S \<noteq> {}" "\<forall>x\<in>S. m \<le> x"
  shows "Max (insert m S) = Max S"
proof -
  have le: "m \<le> Max S" using assms by (meson Max_in)
  have "Max (insert m S) = max m (Max S)" using assms by (intro Max_insert) auto
  also have "\<dots> = Max S" using le by (rule max_absorb2)
  finally show ?thesis .
qed


lemma ComputeMaxXSec_phaseA:
  "nucleon_throws_loop E (nat (fMaxXSecNucleonThrows g))
      (nm, \<lparr>min_energy = DBL_MAX, max_momentum = - DBL_MAX, one_nucleon_ok = False\<rparr>)
   = ((GenerateNucleon E 0 ^^ nat (fMaxXSecNucleonThrows g)) nm,
      foldl record_throw \<lparr>min_energy = DBL_MAX, max_momentum = - DBL_MAX, one_nucleon_ok = False\<rparr>
        (filter (window_ok E) (thrown_nucleons E nm (nat (fMaxXSecNucleonThrows g)))))"
  by (rule nucleon_throws_loop_eq)

text \<open>
  Claim C6. When no throw of Phase A has a non-degenerate angular window,
  \<^verbatim>\<open>ComputeMaxXSec\<close> returns exactly 0 as an ordinary value, whatever the safety factor:
  the cross section is not evaluated at all, the nuclear model has been asked for a nucleon
  exactly \<^verbatim>\<open>fMaxXSecNucleonThrows\<close> times (the extra call of Phase B is not made), and
  its state is the last throw (the setters of Phase B are not called).
\<close>

theorem no_valid_throw_returns_zero:
  assumes "\<forall>pw \<in> set (thrown_nucleons E nm (nat (fMaxXSecNucleonThrows g))). \<not> window_ok E pw"
  shows "\<exists>nm'. ComputeMaxXSec g E nm = (0, nm', []) \<and>
           GenerateNucleon_radii nm' =
             GenerateNucleon_radii nm @ replicate (nat (fMaxXSecNucleonThrows g)) 0 \<and>
           (0 < fMaxXSecNucleonThrows g \<longrightarrow>
              (fCurrMomentum nm', fCurrRemovalEnergy nm') =
                 last (thrown_nucleons E nm (nat (fMaxXSecNucleonThrows g))))"
proof -
  let ?n = "nat (fMaxXSecNucleonThrows g)"
  have f: "filter (window_ok E) (thrown_nucleons E nm ?n) = []"
    using assms by (simp add: filter_empty_conv)
  have r: "ComputeMaxXSec g E nm = (0, (GenerateNucleon E 0 ^^ ?n) nm, [])"
    by (simp add: ComputeMaxXSec_def ComputeMaxXSec_phaseA f Let_def)
  have l: "(fCurrMomentum ((GenerateNucleon E 0 ^^ n) nm), fCurrRemovalEnergy ((GenerateNucleon E 0 ^^ n) nm))
             = last (thrown_nucleons E nm n)" if "0 < n" for n
  proof -
    from that obtain k where k: "n = Suc k" by (cases n) auto
    show ?thesis by (simp add: k thrown_nucleons_def radii_funpow)
  qed
  show ?thesis using r l [of ?n] by (simp add: radii_funpow)
qed


text \<open>
  Claim C5. Phase A throws \<^verbatim>\<open>fMaxXSecNucleonThrows\<close> nucleons, all at radius 0; when
  some throw has a non-degenerate window (and the removal energies are doubles, so at most
  \<^verbatim>\<open>DBL_MAX\<close>), the recorded minimum removal energy and maximum momentum are the
  minimum and the maximum over exactly the throws with a non-degenerate window. Phase B
  then draws once more at radius 0 and sets the nuclear model to the momentum
  \<open>(0, 0, -max_momentum)\<close>, of magnitude \<open>max_momentum\<close>, and to the minimum removal
  energy; the scan of the angles evaluates the cross section for that state, and the
  result is its maximum times the safety factor.
\<close>

theorem extremal_nucleon_state:
  assumes "\<exists>pw \<in> set (thrown_nucleons E nm (nat (fMaxXSecNucleonThrows g))). window_ok E pw"
    and "\<forall>pw \<in> set (thrown_nucleons E nm (nat (fMaxXSecNucleonThrows g))). snd pw \<le> DBL_MAX"
  shows
    "let n = nat (fMaxXSecNucleonThrows g);
         oks = filter (window_ok E) (thrown_nucleons E nm n);
         emin = Min (snd ` set oks);
         pmax = Max ((Mag \<circ> fst) ` set oks);
         s = scan_layers (fSafetyFactor g) (ComputeFullQELPXSec E (0, 0, - pmax) emin) 0
               (first_layer_scan E)
     in \<exists>nm'. ComputeMaxXSec g E nm =
                 (max (- 1) (this_nuc_xsec_max (best s)) * fSafetyFactor g, nm', grid_evals s) \<and>
              fCurrMomentum nm' = (0, 0, - pmax) \<and> Momentum nm' = pmax \<and>
              RemovalEnergy nm' = emin \<and>
              GenerateNucleon_radii nm' = GenerateNucleon_radii nm @ replicate (n + 1) 0"
proof -
  let ?n = "nat (fMaxXSecNucleonThrows g)"
  let ?oks = "filter (window_ok E) (thrown_nucleons E nm ?n)"
  let ?a0 = "\<lparr>min_energy = DBL_MAX, max_momentum = - DBL_MAX, one_nucleon_ok = False\<rparr>"
  let ?a = "foldl record_throw ?a0 ?oks"
  let ?emin = "Min (snd ` set ?oks)"
  let ?pmax = "Max ((Mag \<circ> fst) ` set ?oks)"
  from assms(1) have ne: "?oks \<noteq> []" by (auto simp: filter_empty_conv)
  then have ok: "one_nucleon_ok ?a" by (simp add: foldl_record_ok)
  have fin: "finite (snd ` set ?oks)" "finite ((Mag \<circ> fst) ` set ?oks)" by simp_all
  have ne': "snd ` set ?oks \<noteq> {}" "(Mag \<circ> fst) ` set ?oks \<noteq> {}" using ne unfolding image_is_empty set_empty by assumption+
  have "\<forall>x \<in> snd ` set ?oks. x \<le> DBL_MAX" using assms(2) by auto
  from Min_drop_bound [OF fin(1) ne'(1) this]
  have emin: "min_energy ?a = ?emin" by (simp add: foldl_record_min)
  have "\<forall>x \<in> (Mag \<circ> fst) ` set ?oks. - DBL_MAX \<le> x"
  proof
    fix x assume "x \<in> (Mag \<circ> fst) ` set ?oks"
    then have "0 \<le> x" by auto
    with DBL_MAX_pos show "- DBL_MAX \<le> x" by linarith
  qed
  from Max_drop_bound [OF fin(2) ne'(2) this]
  have pmax: "max_momentum ?a = ?pmax" by (simp add: foldl_record_max)
  have "?pmax \<in> (Mag \<circ> fst) ` set ?oks" using fin(2) ne'(2) by (rule Max_in)
  then have pos: "0 \<le> ?pmax" by auto
  show ?thesis
    using ok emin pmax pos
    by (simp add: ComputeMaxXSec_def ComputeMaxXSec_phaseA Let_def SetMomentum3_def
        SetRemovalEnergy_def Momentum_def RemovalEnergy_def radii_funpow max_def
        replicate_append_same)
qed


theorem no_valid_throw_returns_zero_witness:
  "ComputeMaxXSec (default_generator\<lparr>fMaxXSecNucleonThrows := 3\<rparr>)
       (toy_estimator_env\<lparr>CosTheta0Max_thrown := (\<lambda>p w. - 1)\<rparr>) fresh_nuclear_model
     = (0, \<lparr>fCurrMomentum = (0, 0, 1 / 4), fCurrRemovalEnergy = 1 / 40,
            GenerateNucleon_radii = [0, 0, 0]\<rparr>, [])"
proof -
  let ?g = "default_generator\<lparr>fMaxXSecNucleonThrows := 3\<rparr>"
  let ?E = "toy_estimator_env\<lparr>CosTheta0Max_thrown := (\<lambda>p w. - 1)\<rparr>"
  have h: "\<forall>pw \<in> set (thrown_nucleons ?E fresh_nuclear_model (nat (fMaxXSecNucleonThrows ?g))).
             \<not> window_ok ?E pw"
    by (simp add: window_ok_def)
  have n: "nat (fMaxXSecNucleonThrows ?g) = 3" "0 < fMaxXSecNucleonThrows ?g" by simp_all
  have th: "last (thrown_nucleons ?E fresh_nuclear_model 3) = ((0, 0, 1 / 4), 1 / 40)"
    by (simp add: thrown_nucleons_def toy_estimator_env_def fresh_nuclear_model_def
        numeral_3_eq_3 upt_rec)
  have r0: "GenerateNucleon_radii fresh_nuclear_model @ replicate 3 0 = [0, 0, 0 :: real]"
    by (simp add: fresh_nuclear_model_def numeral_3_eq_3)
  from no_valid_throw_returns_zero [OF h] obtain nm' where
    r: "ComputeMaxXSec ?g ?E fresh_nuclear_model = (0, nm', [])"
    and radii: "GenerateNucleon_radii nm' = [0, 0, 0]"
    and st: "(fCurrMomentum nm', fCurrRemovalEnergy nm') = ((0, 0, 1 / 4), 1 / 40)"
    unfolding n th r0 using n(2) by blast
  have "nm' = \<lparr>fCurrMomentum = (0, 0, 1 / 4), fCurrRemovalEnergy = 1 / 40,
            GenerateNucleon_radii = [0, 0, 0]\<rparr>"
    using radii st by (cases nm') simp
  with r show ?thesis by simp
qed

theorem extremal_nucleon_state_witness:
  "window_ok toy_estimator_env ((0, 0, 1 / 2), 1 / 20) \<and>
   window_ok toy_estimator_env ((0, 0, 3 / 4), 1 / 10) \<and>
   \<not> window_ok toy_estimator_env ((0, 0, 1 / 4), 1 / 40) \<and>
   (\<exists>v nm' evals.
      ComputeMaxXSec (default_generator\<lparr>fMaxXSecNucleonThrows := 3\<rparr>) toy_estimator_env
          fresh_nuclear_model = (v, nm', evals) \<and>
      fCurrMomentum nm' = (0, 0, - 3 / 4) \<and> Momentum nm' = 3 / 4 \<and>
      RemovalEnergy nm' = 1 / 20 \<and> GenerateNucleon_radii nm' = [0, 0, 0, 0])"
proof -
  let ?g = "default_generator\<lparr>fMaxXSecNucleonThrows := 3\<rparr>"
  let ?E = "toy_estimator_env"
  have n: "nat (fMaxXSecNucleonThrows ?g) = 3" by simp
  have th: "thrown_nucleons ?E fresh_nuclear_model 3
              = [((0, 0, 1 / 2), 1 / 20), ((0, 0, 3 / 4), 1 / 10), ((0, 0, 1 / 4), 1 / 40)]"
    by (simp add: thrown_nucleons_def toy_estimator_env_def fresh_nuclear_model_def
        numeral_3_eq_3 upt_rec)
  have w: "window_ok ?E ((0, 0, 1 / 2), 1 / 20)" "window_ok ?E ((0, 0, 3 / 4), 1 / 10)"
    "\<not> window_ok ?E ((0, 0, 1 / 4), 1 / 40)"
    by (simp_all add: window_ok_def toy_estimator_env_def)
  have h1: "\<exists>pw \<in> set (thrown_nucleons ?E fresh_nuclear_model (nat (fMaxXSecNucleonThrows ?g))).
              window_ok ?E pw"
    unfolding n th using w(1) by simp
  have "(1 / 20 :: real) \<le> DBL_MAX" "(1 / 10 :: real) \<le> DBL_MAX" "(1 / 40 :: real) \<le> DBL_MAX"
    using DBL_MAX_pos by simp_all
  then have h2: "\<forall>pw \<in> set (thrown_nucleons ?E fresh_nuclear_model (nat (fMaxXSecNucleonThrows ?g))).
              snd pw \<le> DBL_MAX"
    unfolding n th by simp
  have oks: "filter (window_ok ?E) (thrown_nucleons ?E fresh_nuclear_model 3)
               = [((0, 0, 1 / 2), 1 / 20), ((0, 0, 3 / 4), 1 / 10)]"
    unfolding th using w by simp
  have r0: "GenerateNucleon_radii fresh_nuclear_model @ replicate (3 + 1) 0 = [0, 0, 0, 0 :: real]"
    by (simp add: fresh_nuclear_model_def numeral_3_eq_3)
  have mm: "Min (snd ` set [((0, 0, 1 / 2), 1 / 20), ((0 :: real, 0 :: real, 3 / 4 :: real), 1 / 10 :: real)]) = 1 / 20"
    "Max ((Mag \<circ> fst) ` set [((0, 0, 1 / 2), 1 / 20), ((0 :: real, 0 :: real, 3 / 4 :: real), 1 / 10 :: real)]) = 3 / 4"
    by simp_all
  from extremal_nucleon_state [OF h1 h2]
  have "\<exists>v nm' evals. ComputeMaxXSec ?g ?E fresh_nuclear_model = (v, nm', evals) \<and>
      fCurrMomentum nm' = (0, 0, - 3 / 4) \<and> Momentum nm' = 3 / 4 \<and>
      RemovalEnergy nm' = 1 / 20 \<and> GenerateNucleon_radii nm' = [0, 0, 0, 0]"
    unfolding Let_def n oks r0 mm by auto
  with w show ?thesis by blast
qed

section \<open>Properties of the scan of the angles\<close>


subsection \<open>Rounding\<close>

lemma pow2_powr: "pow2 k = 2 powr (of_int k)"
  by (simp add: pow2_def powr_real_of_int field_simps)

lemma pow2_pos [simp]: "0 < pow2 k"
  by (simp add: pow2_def)

lemma round_double_binade:
  assumes "pow2 k \<le> \<bar>x\<bar>" and "\<bar>x\<bar> < pow2 (k + 1)" and "- 1022 \<le> k"
  shows "round_double x = of_int (round_half_even (x / pow2 (k - 52))) * pow2 (k - 52)"
proof -
  have pos: "0 < \<bar>x\<bar>" using assms(1) pow2_pos [of k] by linarith
  have "\<lfloor>log 2 \<bar>x\<bar>\<rfloor> = k"
    using assms(1,2) pos by (subst floor_log_eq_powr_iff) (simp_all add: pow2_powr)
  then have "ulp_exponent x = k - 52" using assms(3) by (simp add: ulp_exponent_def)
  moreover have "x \<noteq> 0" using pos by auto
  ultimately show ?thesis by (simp add: round_double_def)
qed

lemma round_double_0 [simp]: "round_double 0 = 0"
  by (simp add: round_double_def)

lemma round_half_even_nonneg: "0 \<le> q \<Longrightarrow> 0 \<le> round_half_even q"
  by (auto simp: round_half_even_def Let_def)

lemma round_double_nonneg: "0 \<le> x \<Longrightarrow> 0 \<le> round_double x"
proof (cases "x = 0")
  case True
  then show ?thesis by simp
next
  case False
  assume "0 \<le> x"
  then have "0 \<le> x / pow2 (ulp_exponent x)" by (simp add: less_imp_le)
  then have "0 \<le> round_half_even (x / pow2 (ulp_exponent x))" by (rule round_half_even_nonneg)
  then show ?thesis using False by (simp add: round_double_def less_imp_le)
qed

subsection \<open>One layer\<close>

lemma scan_point_max:
  "this_nuc_xsec_max (scan_point xs b cp) = max (this_nuc_xsec_max b) (xs (fst cp) (snd cp))"
  by (simp add: scan_point_def Let_def max_def split: prod.splits)

lemma foldl_scan_max:
  "this_nuc_xsec_max (foldl (scan_point xs) b ps)
     = Max (insert (this_nuc_xsec_max b) ((\<lambda>cp. xs (fst cp) (snd cp)) ` set ps))"
proof (induction ps arbitrary: b)
  case Nil
  then show ?case by simp
next
  case (Cons cp ps)
  have "this_nuc_xsec_max (foldl (scan_point xs) b (cp # ps))
          = Max (insert (max (this_nuc_xsec_max b) (xs (fst cp) (snd cp)))
                   ((\<lambda>cp. xs (fst cp) (snd cp)) ` set ps))"
    by (simp add: Cons.IH scan_point_max)
  also have "\<dots> = Max (insert (this_nuc_xsec_max b)
                       (insert (xs (fst cp) (snd cp)) ((\<lambda>cp. xs (fst cp) (snd cp)) ` set ps)))"
    by (rule Max_insert_max) simp
  finally show ?case by simp
qed

lemma scan_point_cases:
  "(xs (fst cp) (snd cp) \<le> this_nuc_xsec_max b \<and> scan_point xs b cp = b) \<or>
   (this_nuc_xsec_max b < xs (fst cp) (snd cp) \<and>
    scan_point xs b cp =
      \<lparr>phi_at_xsec_max = snd cp, costh_at_xsec_max = fst cp,
       this_nuc_xsec_max = xs (fst cp) (snd cp)\<rparr>)"
  by (cases cp) (auto simp: scan_point_def Let_def)

lemma foldl_scan_first:
  "(foldl (scan_point xs) b ps = b \<and>
      (\<forall>cp \<in> set ps. xs (fst cp) (snd cp) \<le> this_nuc_xsec_max b)) \<or>
   (\<exists>m < length ps.
      (costh_at_xsec_max (foldl (scan_point xs) b ps), phi_at_xsec_max (foldl (scan_point xs) b ps))
         = ps ! m \<and>
      this_nuc_xsec_max (foldl (scan_point xs) b ps) = xs (fst (ps ! m)) (snd (ps ! m)) \<and>
      this_nuc_xsec_max b < this_nuc_xsec_max (foldl (scan_point xs) b ps) \<and>
      (\<forall>l < m. xs (fst (ps ! l)) (snd (ps ! l)) < this_nuc_xsec_max (foldl (scan_point xs) b ps)) \<and>
      (\<forall>l < length ps. xs (fst (ps ! l)) (snd (ps ! l))
                        \<le> this_nuc_xsec_max (foldl (scan_point xs) b ps)))"
proof (induction ps rule: rev_induct)
  case Nil
  then show ?case by simp
next
  case (snoc x ps)
  let ?c = "foldl (scan_point xs) b ps"
  let ?v = "\<lambda>cp. xs (fst cp) (snd cp)"
  have step: "foldl (scan_point xs) b (ps @ [x]) = scan_point xs ?c x" by simp
  from scan_point_cases [of xs x ?c]
  show ?case
  proof
    assume keep: "?v x \<le> this_nuc_xsec_max ?c \<and> scan_point xs ?c x = ?c"
    from snoc.IH show ?thesis
    proof
      assume a: "?c = b \<and> (\<forall>cp \<in> set ps. ?v cp \<le> this_nuc_xsec_max b)"
      with keep step have "foldl (scan_point xs) b (ps @ [x]) = b \<and>
          (\<forall>cp \<in> set (ps @ [x]). ?v cp \<le> this_nuc_xsec_max b)"
        by auto
      then show ?thesis by blast
    next
      assume "\<exists>m < length ps.
        (costh_at_xsec_max ?c, phi_at_xsec_max ?c) = ps ! m \<and>
        this_nuc_xsec_max ?c = ?v (ps ! m) \<and>
        this_nuc_xsec_max b < this_nuc_xsec_max ?c \<and>
        (\<forall>l < m. ?v (ps ! l) < this_nuc_xsec_max ?c) \<and>
        (\<forall>l < length ps. ?v (ps ! l) \<le> this_nuc_xsec_max ?c)"
      then obtain m where m: "m < length ps"
        "(costh_at_xsec_max ?c, phi_at_xsec_max ?c) = ps ! m"
        "this_nuc_xsec_max ?c = ?v (ps ! m)"
        "this_nuc_xsec_max b < this_nuc_xsec_max ?c"
        "\<forall>l < m. ?v (ps ! l) < this_nuc_xsec_max ?c"
        "\<forall>l < length ps. ?v (ps ! l) \<le> this_nuc_xsec_max ?c"
        by blast
      have all: "\<forall>l < length (ps @ [x]). ?v ((ps @ [x]) ! l) \<le> this_nuc_xsec_max ?c"
        using m(6) keep by (auto simp: nth_append less_Suc_eq)
      have before: "\<forall>l < m. ?v ((ps @ [x]) ! l) < this_nuc_xsec_max ?c"
        using m(1,5) by (auto simp: nth_append)
      have at: "(ps @ [x]) ! m = ps ! m" using m(1) by (simp add: nth_append)
      have "m < length (ps @ [x])" using m(1) by simp
      with keep m(2,3,4) all before at step show ?thesis
        by (intro disjI2 exI [of _ m]) simp
    qed
  next
    assume new: "this_nuc_xsec_max ?c < ?v x \<and>
      scan_point xs ?c x =
        \<lparr>phi_at_xsec_max = snd x, costh_at_xsec_max = fst x, this_nuc_xsec_max = ?v x\<rparr>"
    have le: "\<forall>l < length ps. ?v (ps ! l) \<le> this_nuc_xsec_max ?c"
      and ge: "this_nuc_xsec_max b \<le> this_nuc_xsec_max ?c"
      using snoc.IH by (auto simp: all_set_conv_all_nth)
    have all: "\<forall>l < length (ps @ [x]). ?v ((ps @ [x]) ! l) \<le> ?v x"
      using le new by (auto simp: nth_append less_Suc_eq intro: less_imp_le order_trans)
    have before: "\<forall>l < length ps. ?v ((ps @ [x]) ! l) < ?v x"
      using le new by (auto simp: nth_append intro: le_less_trans)
    have at: "(ps @ [x]) ! length ps = x" by simp
    have "this_nuc_xsec_max b < ?v x" using ge new by linarith
    with new all before at step show ?thesis
      by (intro disjI2 exI [of _ "length ps"]) simp
  qed
qed



lemma length_layer_grid: "length (layer_grid w) = N_theta * N_phi"
  by (simp add: layer_grid_def length_concat comp_def sum_list_triv)

lemma upt_split: "[0..<a * b + b] = [0..<a * b] @ map (\<lambda>j. j + a * b) [0..<b::nat]"
proof -
  have "[0..<a * b + b] = [0..<a * b] @ [a * b..<a * b + b]"
    by (rule upt_add_eq_append) simp
  moreover have "map (\<lambda>j. j + a * b) [0..<b] = [a * b..<a * b + b]"
    using map_add_upt [of "a * b" b] by (simp add: add.commute)
  ultimately show ?thesis by simp
qed

lemma concat_grid:
  "concat (map (\<lambda>i. map (f i) [0..<b]) [0..<a]) = map (\<lambda>m. f (m div b) (m mod b)) [0..<a * b]"
proof (induction a)
  case 0
  then show ?case by simp
next
  case (Suc a)
  have "map (\<lambda>m. f (m div b) (m mod b)) (map (\<lambda>j. j + a * b) [0..<b]) = map (f a) [0..<b]"
    by (simp add: comp_def)
  then have "map (\<lambda>m. f (m div b) (m mod b)) [0..<a * b + b]
               = map (\<lambda>m. f (m div b) (m mod b)) [0..<a * b] @ map (f a) [0..<b]"
    by (simp only: upt_split map_append)
  moreover have "Suc a * b = a * b + b" by simp
  ultimately show ?case by (simp add: Suc.IH del: mult_Suc)
qed

lemma layer_grid_index_N:
  "layer_grid w =
     map (\<lambda>m. (dbl_add (costh_range_min w) (dbl_mul (real (m div N_phi)) (costh_increment w)),
               dbl_add (phi_range_min w) (dbl_mul (real (m mod N_phi)) (phi_increment w))))
       [0..<N_theta * N_phi]"
  unfolding layer_grid_def by (rule concat_grid)

lemma grid_size: "N_theta * N_phi = 100"
  by (simp add: N_theta_def N_phi_def)

lemma layer_grid_nth:
  assumes "m < 100"
  shows "layer_grid w ! m =
           (dbl_add (costh_range_min w) (dbl_mul (real (m div 10)) (costh_increment w)),
            dbl_add (phi_range_min w) (dbl_mul (real (m mod 10)) (phi_increment w)))"
proof -
  have lt: "m < N_theta * N_phi" using assms by (simp only: grid_size)
  have "layer_grid w ! m =
          map (\<lambda>m. (dbl_add (costh_range_min w) (dbl_mul (real (m div N_phi)) (costh_increment w)),
               dbl_add (phi_range_min w) (dbl_mul (real (m mod N_phi)) (phi_increment w))))
            [0..<N_theta * N_phi] ! m"
    by (simp only: layer_grid_index_N [symmetric])
  also have "\<dots> = (dbl_add (costh_range_min w) (dbl_mul (real (m div N_phi)) (costh_increment w)),
               dbl_add (phi_range_min w) (dbl_mul (real (m mod N_phi)) (phi_increment w)))"
    using lt by (simp only: nth_map length_upt diff_zero nth_upt add_0)
  finally show ?thesis by (simp only: N_phi_def)
qed

lemma after_layers_Suc: "after_layers xs s0 (Suc k) = scan_layer xs (after_layers xs s0 k)"
  by (simp add: after_layers_def)

lemma scan_layers_from:
  assumes "max_n_layers - ilayer = d" and "ilayer \<le> max_n_layers"
  shows "\<exists>n. scan_layers safety xs ilayer (after_layers xs s0 ilayer) = after_layers xs s0 n \<and>
              ilayer \<le> n \<and> n \<le> max_n_layers \<and> (ilayer < max_n_layers \<longrightarrow> ilayer < n) \<and>
              (\<forall>i. ilayer \<le> i \<and> 1 \<le> i \<and> Suc i < n \<longrightarrow> \<not> improvement_below safety xs s0 i) \<and>
              (n < max_n_layers \<longrightarrow> 2 \<le> n \<and> improvement_below safety xs s0 (n - 1))"
  using assms
proof (induction d arbitrary: ilayer)
  case 0
  then have "ilayer = max_n_layers" by simp
  then show ?case by (subst scan_layers.simps) auto
next
  case (Suc d)
  then have lt: "ilayer < max_n_layers" by simp
  let ?stop = "ilayer \<noteq> 0 \<and> improvement_below safety xs s0 ilayer"
  have unfold: "scan_layers safety xs ilayer (after_layers xs s0 ilayer) =
      (if ?stop then after_layers xs s0 (Suc ilayer)
       else scan_layers safety xs (Suc ilayer) (after_layers xs s0 (Suc ilayer)))"
    using lt
    by (subst scan_layers.simps) (simp add: Let_def improvement_below_def after_layers_Suc)
  show ?case
  proof (cases ?stop)
    case True
    then have "1 \<le> ilayer" by simp
    with True unfold lt show ?thesis
      by (intro exI [of _ "Suc ilayer"]) auto
  next
    case False
    have d: "max_n_layers - Suc ilayer = d" using Suc.prems by simp
    have le: "Suc ilayer \<le> max_n_layers" using lt by simp
    from Suc.IH [OF d le] obtain n where n:
      "scan_layers safety xs (Suc ilayer) (after_layers xs s0 (Suc ilayer)) = after_layers xs s0 n"
      "Suc ilayer \<le> n" "n \<le> max_n_layers"
      "\<forall>i. Suc ilayer \<le> i \<and> 1 \<le> i \<and> Suc i < n \<longrightarrow> \<not> improvement_below safety xs s0 i"
      "n < max_n_layers \<longrightarrow> 2 \<le> n \<and> improvement_below safety xs s0 (n - 1)"
      by blast
    have "\<not> improvement_below safety xs s0 i" if "ilayer \<le> i" "1 \<le> i" "Suc i < n" for i
    proof (cases "i = ilayer")
      case True
      with False that show ?thesis by simp
    next
      case False
      with that n(4) show ?thesis by simp
    qed
    with n unfold False show ?thesis
      by (intro exI [of _ n]) auto
  qed
qed



text \<open>
  Claim C4. The scan of Phase B stops after \<open>n\<close> layers, with \<open>1 \<le> n \<le> 100\<close>: if
  fewer than 100, then at least two layers were scanned, the fractional improvement of the
  running maximum from layer \<open>n - 1\<close> to layer \<open>n\<close> is below \<open>0.2 * (safety - 1)\<close>, and
  no earlier pair of consecutive layers had an improvement below it. The improvement and
  the bound are the doubles that line 674 computes: where the previous maximum is not zero
  and the quotient does not overflow, the rounded quotient of the two maxima, minus one and
  rounded, against the rounded product of the double \<open>0.2\<close> and the rounded
  \<open>safety - 1\<close>. Every layer evaluates the cross section on the 100 points of a 10 by 10
  grid over the current window, in the order of the two loops, keeps the running maximum
  and the first grid point where it was found, and makes the next window the one centred
  on that point whose half-widths are the grid steps of the layer just scanned (in double
  arithmetic).
\<close>

theorem hierarchical_scan:
  "(\<exists>n. scan_layers safety xs 0 s0 = after_layers xs s0 n \<and> 1 \<le> n \<and> n \<le> 100 \<and>
        (\<forall>i. 1 \<le> i \<and> Suc i < n \<longrightarrow> \<not> improvement_below safety xs s0 i) \<and>
        (n < 100 \<longrightarrow> 2 \<le> n \<and> improvement_below safety xs s0 (n - 1))) \<and>
   (\<forall>i. let last_max = this_nuc_xsec_max (best (after_layers xs s0 i));
            this_max = this_nuc_xsec_max (best (after_layers xs s0 (Suc i)))
        in last_max \<noteq> 0 \<and> \<bar>round_double (this_max / last_max)\<bar> \<le> DBL_MAX \<longrightarrow>
           improvement_below safety xs s0 i =
             (round_double (round_double (this_max / last_max) - 1)
                < round_double (round_double (2 / 10) * round_double (safety - 1)))) \<and>
   (\<forall>k. let s = after_layers xs s0 k;
            s' = after_layers xs s0 (Suc k);
            w = window s;
            b = best s;
            b' = best s';
            costh_step = round_double (round_double (costh_range_max w - costh_range_min w) / 10);
            phi_step = round_double (round_double (phi_range_max w - phi_range_min w) / 10);
            grid = layer_grid w;
            value = (\<lambda>m. xs (fst (grid ! m)) (snd (grid ! m)))
        in length grid = 100 \<and>
           (\<forall>m < 100. grid ! m =
              (round_double (costh_range_min w + round_double (real (m div 10) * costh_step)),
               round_double (phi_range_min w + round_double (real (m mod 10) * phi_step)))) \<and>
           grid_evals s' = grid_evals s @ grid \<and>
           this_nuc_xsec_max b' =
             Max (insert (this_nuc_xsec_max b) ((\<lambda>cp. xs (fst cp) (snd cp)) ` set grid)) \<and>
           ((b' = b \<and> (\<forall>m < 100. value m \<le> this_nuc_xsec_max b)) \<or>
            (\<exists>m < 100. (costh_at_xsec_max b', phi_at_xsec_max b') = grid ! m \<and>
               this_nuc_xsec_max b' = value m \<and>
               this_nuc_xsec_max b < this_nuc_xsec_max b' \<and>
               (\<forall>l < m. value l < this_nuc_xsec_max b'))) \<and>
           window s' =
             \<lparr>costh_range_min = round_double (costh_at_xsec_max b' - costh_step),
              costh_range_max = round_double (costh_at_xsec_max b' + costh_step),
              phi_range_min = round_double (phi_at_xsec_max b' - phi_step),
              phi_range_max = round_double (phi_at_xsec_max b' + phi_step)\<rparr>)"
proof (intro conjI allI)
  have z: "after_layers xs s0 0 = s0" by (simp add: after_layers_def)
  from scan_layers_from [of 0 max_n_layers safety xs s0]
  show "\<exists>n. scan_layers safety xs 0 s0 = after_layers xs s0 n \<and> 1 \<le> n \<and> n \<le> 100 \<and>
        (\<forall>i. 1 \<le> i \<and> Suc i < n \<longrightarrow> \<not> improvement_below safety xs s0 i) \<and>
        (n < 100 \<longrightarrow> 2 \<le> n \<and> improvement_below safety xs s0 (n - 1))"
    by (auto simp: z max_n_layers_def)
next
  fix i
  show "let last_max = this_nuc_xsec_max (best (after_layers xs s0 i));
            this_max = this_nuc_xsec_max (best (after_layers xs s0 (Suc i)))
        in last_max \<noteq> 0 \<and> \<bar>round_double (this_max / last_max)\<bar> \<le> DBL_MAX \<longrightarrow>
           improvement_below safety xs s0 i =
             (round_double (round_double (this_max / last_max) - 1)
                < round_double (round_double (2 / 10) * round_double (safety - 1)))"
    by (auto simp: Let_def improvement_below_def ieee_div_def to_double_def dbl_sub_def dbl_mul_def
        acceptable_fraction_of_safety_factor_def)
next
  fix k
  let ?s = "after_layers xs s0 k"
  let ?w = "window ?s"
  let ?g = "layer_grid ?w"
  let ?b' = "foldl (scan_point xs) (best ?s) ?g"
  have s': "after_layers xs s0 (Suc k) = scan_layer xs ?s" by (rule after_layers_Suc)
  have b': "best (scan_layer xs ?s) = ?b'"
    by (simp add: scan_layer_def Let_def)
  have cstep: "round_double (round_double (costh_range_max ?w - costh_range_min ?w) / 10)
                 = costh_increment ?w"
    and pstep: "round_double (round_double (phi_range_max ?w - phi_range_min ?w) / 10)
                 = phi_increment ?w"
    by (simp_all add: costh_increment_def phi_increment_def dbl_div_def dbl_sub_def
        N_theta_def N_phi_def)
  have len: "length ?g = 100" by (simp only: length_layer_grid grid_size)
  have nth: "\<forall>m < 100. ?g ! m =
              (round_double (costh_range_min ?w + round_double (real (m div 10) * costh_increment ?w)),
               round_double (phi_range_min ?w + round_double (real (m mod 10) * phi_increment ?w)))"
    by (simp add: layer_grid_nth dbl_add_def dbl_mul_def)
  have evals: "grid_evals (scan_layer xs ?s) = grid_evals ?s @ ?g"
    by (simp add: scan_layer_def Let_def)
  have mx: "this_nuc_xsec_max ?b' =
             Max (insert (this_nuc_xsec_max (best ?s)) ((\<lambda>cp. xs (fst cp) (snd cp)) ` set ?g))"
    by (rule foldl_scan_max)
  have first: "(?b' = best ?s \<and> (\<forall>m < 100. xs (fst (?g ! m)) (snd (?g ! m)) \<le> this_nuc_xsec_max (best ?s))) \<or>
            (\<exists>m < 100. (costh_at_xsec_max ?b', phi_at_xsec_max ?b') = ?g ! m \<and>
               this_nuc_xsec_max ?b' = xs (fst (?g ! m)) (snd (?g ! m)) \<and>
               this_nuc_xsec_max (best ?s) < this_nuc_xsec_max ?b' \<and>
               (\<forall>l < m. xs (fst (?g ! l)) (snd (?g ! l)) < this_nuc_xsec_max ?b'))"
    using foldl_scan_first [of xs "best ?s" ?g] unfolding len all_set_conv_all_nth by blast
  have win: "window (scan_layer xs ?s) =
             \<lparr>costh_range_min = round_double (costh_at_xsec_max ?b' - costh_increment ?w),
              costh_range_max = round_double (costh_at_xsec_max ?b' + costh_increment ?w),
              phi_range_min = round_double (phi_at_xsec_max ?b' - phi_increment ?w),
              phi_range_max = round_double (phi_at_xsec_max ?b' + phi_increment ?w)\<rparr>"
    by (simp add: scan_layer_def Let_def dbl_add_def dbl_sub_def)
  show "let s = after_layers xs s0 k;
            s' = after_layers xs s0 (Suc k);
            w = window s;
            b = best s;
            b' = best s';
            costh_step = round_double (round_double (costh_range_max w - costh_range_min w) / 10);
            phi_step = round_double (round_double (phi_range_max w - phi_range_min w) / 10);
            grid = layer_grid w;
            value = (\<lambda>m. xs (fst (grid ! m)) (snd (grid ! m)))
        in length grid = 100 \<and>
           (\<forall>m < 100. grid ! m =
              (round_double (costh_range_min w + round_double (real (m div 10) * costh_step)),
               round_double (phi_range_min w + round_double (real (m mod 10) * phi_step)))) \<and>
           grid_evals s' = grid_evals s @ grid \<and>
           this_nuc_xsec_max b' =
             Max (insert (this_nuc_xsec_max b) ((\<lambda>cp. xs (fst cp) (snd cp)) ` set grid)) \<and>
           ((b' = b \<and> (\<forall>m < 100. value m \<le> this_nuc_xsec_max b)) \<or>
            (\<exists>m < 100. (costh_at_xsec_max b', phi_at_xsec_max b') = grid ! m \<and>
               this_nuc_xsec_max b' = value m \<and>
               this_nuc_xsec_max b < this_nuc_xsec_max b' \<and>
               (\<forall>l < m. value l < this_nuc_xsec_max b'))) \<and>
           window s' =
             \<lparr>costh_range_min = round_double (costh_at_xsec_max b' - costh_step),
              costh_range_max = round_double (costh_at_xsec_max b' + costh_step),
              phi_range_min = round_double (phi_at_xsec_max b' - phi_step),
              phi_range_max = round_double (phi_at_xsec_max b' + phi_step)\<rparr>"
    unfolding Let_def s' b' cstep pstep
    using len nth evals mx first win by (intro conjI) assumption+
qed


subsection \<open>The doubles of an example\<close>

lemma DBL_MAX_ge_2: "2 \<le> DBL_MAX"
proof -
  have "(2::real) \<le> 1 * 2 ^ 1023" by simp
  also have "\<dots> \<le> (2 - 1 / 2 ^ 52) * 2 ^ 1023" by (intro mult_right_mono) simp_all
  finally show ?thesis by (simp add: DBL_MAX_def)
qed

lemma round_double_1: "round_double 1 = 1"
  by (subst round_double_binade [of 0]) (simp_all add: pow2_def round_half_even_def Let_def)

lemma round_double_minus_1: "round_double (- 1) = - 1"
  by (subst round_double_binade [of 0]) (simp_all add: pow2_def round_half_even_def Let_def)

lemma round_double_fifth: "round_double (2 / 10) = 3602879701896397 / 2 ^ 54"
  by (subst round_double_binade [of "- 3"]) (simp_all add: pow2_def round_half_even_def Let_def)

lemma round_double_fifth_again:
  "round_double (3602879701896397 / 2 ^ 54) = 3602879701896397 / 2 ^ 54"
  by (subst round_double_binade [of "- 3"]) (simp_all add: pow2_def round_half_even_def Let_def)

lemma round_double_six_fifths: "round_double (6 / 5) = 5404319552844595 / 2 ^ 52"
  by (subst round_double_binade [of 0]) (simp_all add: pow2_def round_half_even_def Let_def)

lemma round_double_six_fifths_minus_1:
  "round_double (5404319552844595 / 2 ^ 52 - 1) = 900719925474099 / 2 ^ 52"
  by (subst round_double_binade [of "- 3"]) (simp_all add: pow2_def round_half_even_def Let_def)

lemma round_double_two_pi: "round_double (2 * TMath_Pi) = 2 * TMath_Pi"
  unfolding TMath_Pi_def
  by (subst round_double_binade [of 2]) (simp_all add: pow2_def round_half_even_def Let_def)

lemma round_double_phi_step:
  "round_double (2 * TMath_Pi / 10) = first_phi_increment"
  unfolding TMath_Pi_def first_phi_increment_def
  by (subst round_double_binade [of "- 1"]) (simp_all add: pow2_def round_half_even_def Let_def)

lemma round_double_minus_phi_step:
  "round_double (- first_phi_increment) = - first_phi_increment"
  unfolding first_phi_increment_def
  by (subst round_double_binade [of "- 1"]) (simp_all add: pow2_def round_half_even_def Let_def)

lemma first_phi_increment_pos: "0 < first_phi_increment"
  by (simp add: first_phi_increment_def)


theorem hierarchical_scan_witness:
  "\<not> (6 / 5 - 1 < 2 / 10 * (2 - 1 :: real)) \<and>
   this_nuc_xsec_max (best (after_layers toy_xsec (first_layer_scan toy_estimator_env) 1)) = 5 \<and>
   this_nuc_xsec_max (best (after_layers toy_xsec (first_layer_scan toy_estimator_env) 2)) = 6 \<and>
   improvement_below 2 toy_xsec (first_layer_scan toy_estimator_env) 1 \<and>
   scan_layers 2 toy_xsec 0 (first_layer_scan toy_estimator_env)
     = after_layers toy_xsec (first_layer_scan toy_estimator_env) 2"
proof -
  let ?s0 = "first_layer_scan toy_estimator_env"
  let ?st = "after_layers toy_xsec ?s0"
  let ?v = "first_phi_increment"
  note t = hierarchical_scan [of 2 toy_xsec ?s0]
  note layer = t [THEN conjunct2, THEN conjunct2, rule_format, unfolded Let_def]
  note test = t [THEN conjunct2, THEN conjunct1, rule_format, unfolded Let_def]
  have st0: "?st 0 = ?s0" by (simp add: after_layers_def)
  have w0: "costh_range_min (window ?s0) = - 1" "phi_range_min (window ?s0) = 0"
    "phi_range_max (window ?s0) = 2 * TMath_Pi"
    by (simp_all add: first_layer_scan_def dbl_mul_def round_double_two_pi)
  have b0: "this_nuc_xsec_max (best ?s0) = - 1" by (simp add: first_layer_scan_def)
  have "phi_range_max (window ?s0) - phi_range_min (window ?s0) = 2 * TMath_Pi"
    by (simp add: w0)
  then have step0: "round_double (round_double (phi_range_max (window ?s0)
                      - phi_range_min (window ?s0)) / 10) = ?v"
    by (simp only: round_double_two_pi round_double_phi_step)
  \<comment> \<open>The first layer: every \<open>phi\<close> is at least 0, so every value is 5.\<close>
  define g0 where "g0 = layer_grid (window ?s0)"
  define c0 where "c0 = round_double (round_double (costh_range_max (window ?s0)
                      - costh_range_min (window ?s0)) / 10)"
  note nth0 = layer [of 0, THEN conjunct2, THEN conjunct1, unfolded st0, folded c0_def,
      unfolded step0, unfolded w0, folded g0_def]
  have g0: "g0 ! m = (round_double (- 1 + round_double (real (m div 10) * c0)),
               round_double (0 + round_double (real (m mod 10) * ?v)))" if "m < 100" for m
    using that by (rule nth0 [rule_format])
  have phi0: "0 \<le> snd (g0 ! m)" if "m < 100" for m
  proof -
    have "0 \<le> real (m mod 10) * ?v" using first_phi_increment_pos by simp
    then have "0 \<le> round_double (real (m mod 10) * ?v)" by (rule round_double_nonneg)
    then have "0 \<le> round_double (0 + round_double (real (m mod 10) * ?v))"
      by (intro round_double_nonneg) simp
    then show ?thesis by (simp only: g0 [OF that] snd_conv)
  qed
  have val0: "toy_xsec (fst (g0 ! m)) (snd (g0 ! m)) = 5" if "m < 100" for m
    using phi0 [OF that] by (simp add: toy_xsec_def)
  have g00: "g0 ! 0 = (- 1, 0)"
    using g0 [of 0] by (simp add: round_double_minus_1)
  note first0 = layer [of 0, THEN conjunct2, THEN conjunct2, THEN conjunct2, THEN conjunct2,
      THEN conjunct1, unfolded st0, folded g0_def]
  have best1: "costh_at_xsec_max (best (?st (Suc 0))) = - 1 \<and>
               phi_at_xsec_max (best (?st (Suc 0))) = 0 \<and>
               this_nuc_xsec_max (best (?st (Suc 0))) = 5"
    using first0
  proof
    assume "best (?st (Suc 0)) = best ?s0 \<and>
            (\<forall>m < 100. toy_xsec (fst (g0 ! m)) (snd (g0 ! m)) \<le> this_nuc_xsec_max (best ?s0))"
    then have "toy_xsec (fst (g0 ! 0)) (snd (g0 ! 0)) \<le> - 1" by (simp add: b0)
    then show ?thesis by (simp add: val0)
  next
    assume "\<exists>m < 100. (costh_at_xsec_max (best (?st (Suc 0))), phi_at_xsec_max (best (?st (Suc 0))))
                 = g0 ! m \<and>
               this_nuc_xsec_max (best (?st (Suc 0))) = toy_xsec (fst (g0 ! m)) (snd (g0 ! m)) \<and>
               this_nuc_xsec_max (best ?s0) < this_nuc_xsec_max (best (?st (Suc 0))) \<and>
               (\<forall>l < m. toy_xsec (fst (g0 ! l)) (snd (g0 ! l)) < this_nuc_xsec_max (best (?st (Suc 0))))"
    then obtain m where m: "m < 100"
      "(costh_at_xsec_max (best (?st (Suc 0))), phi_at_xsec_max (best (?st (Suc 0)))) = g0 ! m"
      "this_nuc_xsec_max (best (?st (Suc 0))) = toy_xsec (fst (g0 ! m)) (snd (g0 ! m))"
      "\<forall>l < m. toy_xsec (fst (g0 ! l)) (snd (g0 ! l)) < this_nuc_xsec_max (best (?st (Suc 0)))"
      by blast
    have five: "this_nuc_xsec_max (best (?st (Suc 0))) = 5" using m(1,3) by (simp add: val0)
    have "m = 0"
    proof (rule ccontr)
      assume "m \<noteq> 0"
      then have "toy_xsec (fst (g0 ! 0)) (snd (g0 ! 0)) < 5" using m(4) five by simp
      then show False by (simp add: val0)
    qed
    with m(2) g00 five show ?thesis by simp
  qed
  \<comment> \<open>The second layer reaches a negative \<open>phi\<close>, where the value is 6.\<close>
  define s1 where "s1 = ?st (Suc 0)"
  have s1: "costh_at_xsec_max (best s1) = - 1" "phi_at_xsec_max (best s1) = 0"
    "this_nuc_xsec_max (best s1) = 5"
    using best1 by (simp_all add: s1_def)
  note win1 = layer [of 0, THEN conjunct2, THEN conjunct2, THEN conjunct2, THEN conjunct2,
      THEN conjunct2, unfolded st0, unfolded step0, folded s1_def, unfolded s1]
  have "phi_range_min (window s1) = round_double (0 - ?v)"
    by (subst win1) simp
  then have pmin1: "phi_range_min (window s1) = - ?v"
    by (simp add: round_double_minus_phi_step)
  define g1 where "g1 = layer_grid (window s1)"
  define c1 where "c1 = round_double (round_double (costh_range_max (window s1)
                      - costh_range_min (window s1)) / 10)"
  define p1 where "p1 = round_double (round_double (phi_range_max (window s1)
                      - phi_range_min (window s1)) / 10)"
  note len1 = layer [of "Suc 0", THEN conjunct1, folded s1_def, folded g1_def]
  note nth1 = layer [of "Suc 0", THEN conjunct2, THEN conjunct1, folded s1_def, folded c1_def,
      folded p1_def, folded g1_def]
  have "g1 ! 0 = (round_double (costh_range_min (window s1) + round_double (real (0 div 10) * c1)),
                  round_double (phi_range_min (window s1) + round_double (real (0 mod 10) * p1)))"
    by (rule nth1 [rule_format]) simp
  then have "snd (g1 ! 0) = round_double (- ?v)" by (simp add: pmin1)
  then have neg: "snd (g1 ! 0) < 0"
    using first_phi_increment_pos by (simp add: round_double_minus_phi_step)
  have six: "toy_xsec (fst (g1 ! 0)) (snd (g1 ! 0)) = 6" using neg by (simp add: toy_xsec_def)
  have in1: "g1 ! 0 \<in> set g1" using len1 by (intro nth_mem) simp
  note max1 = layer [of "Suc 0", THEN conjunct2, THEN conjunct2, THEN conjunct2, THEN conjunct1,
      folded s1_def, folded g1_def, unfolded s1]
  have best2: "this_nuc_xsec_max (best (?st (Suc (Suc 0)))) = 6"
  proof -
    have "Max (insert 5 ((\<lambda>cp. toy_xsec (fst cp) (snd cp)) ` set g1)) = 6"
    proof (rule Max_eqI)
      show "finite (insert 5 ((\<lambda>cp. toy_xsec (fst cp) (snd cp)) ` set g1))" by simp
      show "y \<le> 6" if "y \<in> insert 5 ((\<lambda>cp. toy_xsec (fst cp) (snd cp)) ` set g1)" for y
        using that by (auto simp: toy_xsec_def)
      show "6 \<in> insert 5 ((\<lambda>cp. toy_xsec (fst cp) (snd cp)) ` set g1)"
        using in1 six by force
    qed
    with max1 show ?thesis by simp
  qed
  \<comment> \<open>The test of line 674 after the second layer, in doubles and in exact numbers.\<close>
  have quot: "round_double (6 / 5) = 5404319552844595 / 2 ^ 52" by (rule round_double_six_fifths)
  have lhs: "round_double (round_double (6 / 5) - 1) = 900719925474099 / 2 ^ 52"
    by (simp only: quot round_double_six_fifths_minus_1)
  have one: "round_double (2 - 1) = 1" using round_double_1 by simp
  have rhs: "round_double (round_double (2 / 10) * round_double (2 - 1))
                    = 3602879701896397 / 2 ^ 54"
    by (simp only: one round_double_fifth mult_1_right round_double_fifth_again)
  have "\<bar>5404319552844595 / 2 ^ 52\<bar> \<le> (2 :: real)" by simp
  then have "\<bar>5404319552844595 / 2 ^ 52\<bar> \<le> DBL_MAX"
    using DBL_MAX_ge_2 by (rule order_trans)
  then have range: "\<bar>round_double (6 / 5)\<bar> \<le> DBL_MAX"
    by (simp only: quot)
  note test1 = test [of "Suc 0", folded s1_def, unfolded s1 best2]
  have below: "improvement_below 2 toy_xsec ?s0 (Suc 0)"
  proof -
    have "(5 :: real) \<noteq> 0" by simp
    with test1 range
    have "improvement_below 2 toy_xsec ?s0 (Suc 0) =
            (round_double (round_double (6 / 5) - 1)
               < round_double (round_double (2 / 10) * round_double (2 - 1)))"
      by blast
    moreover have "(900719925474099 / 2 ^ 52 :: real) < 3602879701896397 / 2 ^ 54" by simp
    ultimately show ?thesis by (simp only: lhs rhs)
  qed
  have exact: "\<not> (6 / 5 - 1 < 2 / 10 * (2 - 1 :: real))" by simp
  from t obtain n where n: "scan_layers 2 toy_xsec 0 ?s0 = ?st n"
    "\<forall>i. 1 \<le> i \<and> Suc i < n \<longrightarrow> \<not> improvement_below 2 toy_xsec ?s0 i"
    "n < 100 \<longrightarrow> 2 \<le> n \<and> improvement_below 2 toy_xsec ?s0 (n - 1)"
    by blast
  have "\<not> Suc (Suc 0) < n" using n(2) below by auto
  with n(3) have "n = 2" by auto
  with n(1) below best2 best1 exact show ?thesis by (simp add: numeral_2_eq_2)
qed

end
